theory Spec2Isabelle
  imports Complex_Main
begin

section \<open>Python values shared by the three modules\<close>

text \<open>
  A Python string is a sequence of Unicode code points, here a list of natural numbers;
  \<open>ascii\<close> turns a literal of the theory into such a list. The regular-expression class
  \<^verbatim>\<open>\d\<close> of a str pattern matches every character of the Unicode category Nd; in the
  Unicode database of CPython 3.11 (version 14.0) these are 66 runs of ten consecutive code
  points, each run holding the digits 0 to 9 in order, and \<^verbatim>\<open>int()\<close> reads them with these
  values. Python integers are \<^typ>\<open>int\<close>, unbounded, but \<^verbatim>\<open>int()\<close> refuses a string of more
  digits than the interpreter's limit, 4300 unless it is reconfigured. Python floats are
  modelled by \<^typ>\<open>real\<close>: only comparisons with constants and casts from integers occur,
  rounding and NaN are left out.

  Every exception of the source is a value of \<open>error\<close>: the built-in ValueError and
  TypeError carry their message, pydantic's ValidationError carries the model name and the
  list of failing fields with the message of each.
\<close>

type_synonym pystr = "nat list"

abbreviation (input) ascii :: "string \<Rightarrow> pystr" where
  "ascii s \<equiv> map of_char s"

datatype error =
    ValueError pystr
  | TypeError pystr
  | ValidationError pystr "(pystr \<times> pystr) list"

text \<open>Loosely typed input (what a caller can put in a dict). A bytes value is the list of
  its bytes.\<close>

datatype pyval =
    VNone
  | VBool bool
  | VInt int
  | VFloat real
  | VStr pystr
  | VBytes "nat list"
  | VList "pyval list"
  | VDict "(pystr \<times> pyval) list"

text \<open>The newline character, which \<^verbatim>\<open>$\<close> tolerates once at the very end of the subject.\<close>

definition newline :: nat where
  "newline = 10"

text \<open>The code point of the digit zero of each run of decimal digits (category Nd).\<close>

definition digit_zeros :: "nat list" where
  "digit_zeros =
    [48, 1632, 1776, 1984, 2406, 2534, 2662, 2790, 2918, 3046, 3174, 3302, 3430, 3558, 3664,
     3792, 3872, 4160, 4240, 6112, 6160, 6470, 6608, 6784, 6800, 6992, 7088, 7232, 7248,
     42528, 43216, 43264, 43472, 43504, 43600, 44016, 65296, 66720, 68912, 69734, 69872,
     69942, 70096, 70384, 70736, 70864, 71248, 71360, 71472, 71904, 72016, 72784, 73040,
     73120, 92768, 92864, 93008, 120782, 120792, 120802, 120812, 120822, 123200, 123632,
     125264, 130032]"

definition digit_zero :: "nat \<Rightarrow> nat option" where
  "digit_zero c = find (\<lambda>z. z \<le> c \<and> c < z + 10) digit_zeros"

text \<open>\<^verbatim>\<open>\d\<close>, and the value that \<^verbatim>\<open>int()\<close> gives the digit.\<close>

definition is_digit :: "nat \<Rightarrow> bool" where
  "is_digit c = (case digit_zero c of None \<Rightarrow> False | Some _ \<Rightarrow> True)"

definition digit_val :: "nat \<Rightarrow> nat" where
  "digit_val c = (case digit_zero c of None \<Rightarrow> 0 | Some z \<Rightarrow> c - z)"

text \<open>\<^verbatim>\<open>[0-9]\<close>: the ASCII digits only.\<close>

definition is_ascii_digit :: "nat \<Rightarrow> bool" where
  "is_ascii_digit c = (48 \<le> c \<and> c \<le> 57)"

definition digit_char :: "nat \<Rightarrow> nat" where
  "digit_char n = 48 + n"

text \<open>\<^verbatim>\<open>str(n)\<close> for an integer: ASCII decimal digits, most significant first, a minus sign if
  negative.\<close>

fun str_nat :: "nat \<Rightarrow> pystr" where
  "str_nat n = (if n < 10 then [digit_char n] else str_nat (n div 10) @ [digit_char (n mod 10)])"

declare str_nat.simps [simp del]

definition py_str_int :: "int \<Rightarrow> pystr" where
  "py_str_int i = (if i < 0 then ascii ''-'' @ str_nat (nat (- i)) else str_nat (nat i))"

text \<open>\<^verbatim>\<open>int(s)\<close> on a non-empty string of decimal digits: a ValueError when the string has more
  digits (leading zeros included) than the limit, its value otherwise.\<close>

definition int_max_str_digits :: nat where
  "int_max_str_digits = 4300"

definition py_int :: "pystr \<Rightarrow> error + int" where
  "py_int ds =
     (if int_max_str_digits < length ds then
        Inl (ValueError (ascii ''Exceeds the limit ('' @ str_nat int_max_str_digits
          @ ascii '' digits) for integer string conversion: value has '' @ str_nat (length ds)
          @ ascii '' digits; use sys.set_int_max_str_digits() to increase the limit''))
      else Inr (int (foldl (\<lambda>a d. 10 * a + digit_val d) 0 ds)))"

text \<open>\<^verbatim>\<open>str.upper()\<close> on one character. The source applies it to a character of the class
  \<^verbatim>\<open>[A-Ga-g]\<close> only, so the ASCII letters are all that is modelled.\<close>

definition upper_char :: "nat \<Rightarrow> nat" where
  "upper_char c = (if 97 \<le> c \<and> c \<le> 122 then c - 32 else c)"

definition py_upper :: "pystr \<Rightarrow> pystr" where
  "py_upper s = map upper_char s"

text \<open>\<^verbatim>\<open>str.lower()\<close>. An ASCII capital becomes the small letter, every other ASCII character
  stays. For a code point from U+0080 on, the lower-case mapping of the Unicode database
  gives one or more code points, and for the Greek capital sigma it depends on the
  neighbouring characters; it is a parameter of the model: \<open>lower_other s i\<close> is what the
  character at position \<open>i\<close> of the string \<open>s\<close> becomes.\<close>

definition py_lower :: "(pystr \<Rightarrow> nat \<Rightarrow> pystr) \<Rightarrow> pystr \<Rightarrow> pystr" where
  "py_lower lower_other s =
     concat (map (\<lambda>(i, c). if 65 \<le> c \<and> c \<le> 90 then [c + 32]
                           else if c < 128 then [c]
                           else lower_other s i)
                 (enumerate 0 s))"

text \<open>\<^verbatim>\<open>a in b\<close> for two strings: \<open>a\<close> occurs in \<open>b\<close> as a contiguous substring.\<close>

fun str_in :: "pystr \<Rightarrow> pystr \<Rightarrow> bool" where
  "str_in p [] = (p = [])"
| "str_in p (x # xs) = (take (length p) (x # xs) = p \<or> str_in p xs)"

text \<open>\<^verbatim>\<open>' '.join(parts)\<close>.\<close>

fun join_space :: "pystr list \<Rightarrow> pystr" where
  "join_space [] = []"
| "join_space [p] = p"
| "join_space (p # q # ps) = p @ ascii '' '' @ join_space (q # ps)"

section \<open>utils.py\<close>

record Note =
  pitch :: pystr
  accidental :: "pystr option"
  octave :: int

text \<open>
  \<^verbatim>\<open>re.match(r'^([A-Ga-g])([#b]?)(\d+)$', note_str)\<close>: the three groups on a match. The
  letter class and the digit class are parameters, since models.py uses the same shape of
  pattern with the classes \<^verbatim>\<open>[A-G]\<close> and \<^verbatim>\<open>[0-9]\<close>. The optional group and the digit run are
  greedy; the classes are disjoint from \<^verbatim>\<open>#\<close> and \<^verbatim>\<open>b\<close>, so backtracking never finds a match
  the greedy run misses. \<^verbatim>\<open>$\<close> matches at the end of the string and also just before a
  newline that ends the string.
\<close>

definition re_match_note ::
  "pystr \<Rightarrow> (nat \<Rightarrow> bool) \<Rightarrow> pystr \<Rightarrow> (pystr \<times> pystr \<times> pystr) option" where
  "re_match_note letters digit s =
     (case s of
        [] \<Rightarrow> None
      | c # r \<Rightarrow>
          if c \<in> set letters then
            (let acc = (case r of [] \<Rightarrow> [] | a # _ \<Rightarrow> if a = 35 \<or> a = 98 then [a] else []);
                 r' = drop (length acc) r;
                 ds = takeWhile digit r';
                 rest = dropWhile digit r'
             in if ds \<noteq> [] \<and> (rest = [] \<or> rest = [newline]) then Some ([c], acc, ds) else None)
          else None)"

text \<open>The assignments of the source in their order: \<^verbatim>\<open>int()\<close> is called, and may raise, before
  the two defensive checks. The handler logs the exception and raises it again.\<close>

definition parse_note :: "pystr \<Rightarrow> error + Note" where
  "parse_note note_str =
     (case re_match_note (ascii ''ABCDEFGabcdefg'') is_digit note_str of
        None \<Rightarrow> Inl (ValueError (ascii ''Invalid note format: '' @ note_str))
      | Some (g1, g2, g3) \<Rightarrow>
          (let p = py_upper g1; a = g2 in
           case py_int g3 of
             Inl e \<Rightarrow> Inl e
           | Inr oct \<Rightarrow>
               if \<not> str_in p (ascii ''ABCDEFG'') then Inl (ValueError (ascii ''Invalid pitch: '' @ p))
               else if a \<notin> set [[], ascii ''#'', ascii ''b'']
                 then Inl (ValueError (ascii ''Invalid accidental: '' @ a))
               else Inr \<lparr>pitch = p, accidental = Some a, octave = oct\<rparr>))"

text \<open>\<^verbatim>\<open>note.accidental or ''\<close>: None and the empty string both give the empty string.\<close>

definition format_note :: "Note \<Rightarrow> pystr" where
  "format_note note =
     (let p = pitch note;
          a = (case accidental note of None \<Rightarrow> [] | Some x \<Rightarrow> x);
          acc_str = (if a = ascii ''#'' then ascii ''#'' else if a = ascii ''b'' then ascii ''b'' else [])
      in p @ acc_str @ py_str_int (octave note))"

definition format_notes :: "Note list \<Rightarrow> pystr" where
  "format_notes ns = join_space (map format_note ns)"

text \<open>A note built as \<^verbatim>\<open>Note(pitch=p, octave=k)\<close>: the accidental keeps its default, None.\<close>

definition Note_default :: "pystr \<Rightarrow> int \<Rightarrow> Note" where
  "Note_default p k = \<lparr>pitch = p, accidental = None, octave = k\<rparr>"

definition generate_scale ::
  "(pystr \<Rightarrow> nat \<Rightarrow> pystr) \<Rightarrow> pystr \<Rightarrow> pystr \<Rightarrow> error + Note list" where
  "generate_scale lower_other root_str scale_type_str =
     (case parse_note root_str of
        Inl e \<Rightarrow> Inl e
      | Inr root_note \<Rightarrow>
          if py_lower lower_other scale_type_str = ascii ''major'' then
            Inr [root_note,
                 Note_default (ascii ''D'') (octave root_note),
                 Note_default (ascii ''E'') (octave root_note),
                 Note_default (ascii ''F'') (octave root_note),
                 Note_default (ascii ''G'') (octave root_note),
                 Note_default (ascii ''A'') (octave root_note),
                 Note_default (ascii ''B'') (octave root_note)]
          else if py_lower lower_other scale_type_str = ascii ''minor'' then
            Inr [root_note,
                 Note_default (ascii ''D'') (octave root_note),
                 Note_default (ascii ''F'') (octave root_note),
                 Note_default (ascii ''G'') (octave root_note),
                 Note_default (ascii ''A'') (octave root_note),
                 Note_default (ascii ''B'') (octave root_note),
                 Note_default (ascii ''C'') (octave root_note + 1)]
          else Inl (ValueError (ascii ''Unsupported scale type: '' @ scale_type_str)))"

record Scale =
  scale_root :: pystr
  scale_type :: pystr
  scale_notes :: "Note list"

text \<open>\<^verbatim>\<open>Scale(root, scale_type)\<close>: the constructor fails when the generation fails.\<close>

definition Scale_init ::
  "(pystr \<Rightarrow> nat \<Rightarrow> pystr) \<Rightarrow> pystr \<Rightarrow> pystr \<Rightarrow> error + Scale" where
  "Scale_init lower_other r t =
     (case generate_scale lower_other r t of
        Inl e \<Rightarrow> Inl e
      | Inr ns \<Rightarrow> Inr \<lparr>scale_root = r, scale_type = t, scale_notes = ns\<rparr>)"

definition get_notes :: "Scale \<Rightarrow> Note list" where
  "get_notes s = scale_notes s"

section \<open>models.py\<close>

subsection \<open>The part of pydantic that the models use\<close>

text \<open>
  A model is built from keyword arguments, here an association list read with
  \<^const>\<open>map_of\<close>. Each declared field is looked up (a missing one is an error), converted to
  its declared type, and then given to the validator the source attaches to it; the errors
  of all fields are collected into one ValidationError. Keys that are not fields are
  ignored.

  A \<^verbatim>\<open>str\<close> field takes a string as it is and decodes a bytes value as UTF-8; the result is
  what the validator of the field receives, so the validator never sees anything but a
  string. What happens to a value that is neither depends on the version of pydantic, which
  the repository does not fix: pydantic 2 refuses it, pydantic 1 turns a number into its
  text \<^verbatim>\<open>str(v)\<close> and refuses the rest. This conversion is the parameter \<open>coerce_str\<close> of the
  model (None for a refusal); \<open>pydantic2_coerce_str\<close> is the one of pydantic 2.
  A \<^verbatim>\<open>float\<close> field takes a float or an integer, a \<^verbatim>\<open>List\<close> field a list; further
  conversions of pydantic for these two are not modelled.
\<close>

definition and_then :: "'e + 'a \<Rightarrow> ('a \<Rightarrow> 'e + 'b) \<Rightarrow> 'e + 'b" where
  "and_then r f = (case r of Inl e \<Rightarrow> Inl e | Inr x \<Rightarrow> f x)"

text \<open>Results of a loop or comprehension that stops at the first exception.\<close>

fun traverse :: "('a \<Rightarrow> 'e + 'b) \<Rightarrow> 'a list \<Rightarrow> 'e + 'b list" where
  "traverse f [] = Inr []"
| "traverse f (x # xs) =
     (case f x of
        Inl e \<Rightarrow> Inl e
      | Inr y \<Rightarrow> (case traverse f xs of Inl e \<Rightarrow> Inl e | Inr ys \<Rightarrow> Inr (y # ys)))"

text \<open>
  \<^verbatim>\<open>bytes.decode()\<close>: strict UTF-8. A lead byte announces one to three continuation bytes
  (of the form \<^verbatim>\<open>10xxxxxx\<close>); encodings longer than needed, the surrogates U+D800 to U+DFFF
  and code points above U+10FFFF are errors, and None stands for the UnicodeDecodeError.
\<close>

definition is_cont :: "nat \<Rightarrow> bool" where
  "is_cont b = (128 \<le> b \<and> b \<le> 191)"

fun utf8_decode :: "nat list \<Rightarrow> pystr option" where
  "utf8_decode [] = Some []"
| "utf8_decode (b # bs) =
     (if b < 128 then map_option ((#) b) (utf8_decode bs)
      else if 194 \<le> b \<and> b \<le> 223 then
        (case bs of
           c1 # r \<Rightarrow>
             if is_cont c1
             then map_option ((#) ((b - 192) * 64 + (c1 - 128))) (utf8_decode r)
             else None
         | _ \<Rightarrow> None)
      else if 224 \<le> b \<and> b \<le> 239 then
        (case bs of
           c1 # c2 # r \<Rightarrow>
             (let cp = (b - 224) * 4096 + (c1 - 128) * 64 + (c2 - 128) in
              if is_cont c1 \<and> is_cont c2 \<and> 2048 \<le> cp \<and> \<not> (55296 \<le> cp \<and> cp \<le> 57343)
              then map_option ((#) cp) (utf8_decode r)
              else None)
         | _ \<Rightarrow> None)
      else if 240 \<le> b \<and> b \<le> 244 then
        (case bs of
           c1 # c2 # c3 # r \<Rightarrow>
             (let cp = (b - 240) * 262144 + (c1 - 128) * 4096 + (c2 - 128) * 64 + (c3 - 128) in
              if is_cont c1 \<and> is_cont c2 \<and> is_cont c3 \<and> 65536 \<le> cp \<and> cp \<le> 1114111
              then map_option ((#) cp) (utf8_decode r)
              else None)
         | _ \<Rightarrow> None)
      else None)"

definition get_field :: "pystr \<Rightarrow> (pystr \<times> pyval) list \<Rightarrow> pystr + pyval" where
  "get_field name kw = (case map_of kw name of None \<Rightarrow> Inl (ascii ''field required'') | Some v \<Rightarrow> Inr v)"

definition str_field :: "(pyval \<Rightarrow> pystr option) \<Rightarrow> pyval \<Rightarrow> pystr + pystr" where
  "str_field coerce_str v =
     (case v of
        VStr s \<Rightarrow> Inr s
      | VBytes bs \<Rightarrow>
          (case utf8_decode bs of
             None \<Rightarrow> Inl (ascii ''str type expected'')
           | Some s \<Rightarrow> Inr s)
      | _ \<Rightarrow>
          (case coerce_str v of
             None \<Rightarrow> Inl (ascii ''str type expected'')
           | Some s \<Rightarrow> Inr s))"

definition pydantic2_coerce_str :: "pyval \<Rightarrow> pystr option" where
  "pydantic2_coerce_str v = None"

definition float_field :: "pyval \<Rightarrow> pystr + real" where
  "float_field v =
     (case v of
        VFloat r \<Rightarrow> Inr r
      | VInt i \<Rightarrow> Inr (of_int i)
      | _ \<Rightarrow> Inl (ascii ''value is not a valid float''))"

definition float_list_field :: "pyval \<Rightarrow> pystr + real list" where
  "float_list_field v =
     (case v of
        VList xs \<Rightarrow> traverse float_field xs
      | _ \<Rightarrow> Inl (ascii ''value is not a valid list''))"

definition field_error :: "pystr \<Rightarrow> pystr + 'a \<Rightarrow> (pystr \<times> pystr) list" where
  "field_error name r = (case r of Inl e \<Rightarrow> [(name, e)] | Inr _ \<Rightarrow> [])"

text \<open>\<^verbatim>\<open>str(e)\<close> of an exception, as it appears inside the wrapping message.\<close>

definition error_text :: "error \<Rightarrow> pystr" where
  "error_text e =
     (case e of
        ValueError m \<Rightarrow> m
      | TypeError m \<Rightarrow> m
      | ValidationError model errs \<Rightarrow>
          py_str_int (int (length errs)) @ ascii '' validation error for '' @ model @
          concat (map (\<lambda>(f, m). newline # f @ newline # ascii ''  '' @ m) errs))"

subsection \<open>MusicNote\<close>

record MusicNote =
  mn_pitch :: pystr
  duration :: real
  timing :: real

text \<open>\<^verbatim>\<open>re.match(r'^[A-G][#b]?[0-9]+$', value)\<close> is the pattern of utils.py with the letter
  class \<^verbatim>\<open>[A-G]\<close> and the digit class \<^verbatim>\<open>[0-9]\<close>.\<close>

definition validate_pitch :: "pyval \<Rightarrow> pystr + pystr" where
  "validate_pitch v =
     (case v of
        VStr s \<Rightarrow>
          if re_match_note (ascii ''ABCDEFG'') is_ascii_digit s = None
          then Inl (ascii ''Invalid pitch format: '' @ s)
          else Inr s
      | _ \<Rightarrow> Inl (ascii ''Pitch must be a string''))"

definition MusicNote_new ::
  "(pyval \<Rightarrow> pystr option) \<Rightarrow> (pystr \<times> pyval) list \<Rightarrow> error + MusicNote" where
  "MusicNote_new coerce_str kw =
     (let p = and_then (and_then (get_field (ascii ''pitch'') kw) (str_field coerce_str))
                (\<lambda>s. validate_pitch (VStr s));
          d = and_then (get_field (ascii ''duration'') kw) float_field;
          t = and_then (get_field (ascii ''timing'') kw) float_field
      in case (p, d, t) of
           (Inr p', Inr d', Inr t') \<Rightarrow> Inr \<lparr>mn_pitch = p', duration = d', timing = t'\<rparr>
         | _ \<Rightarrow> Inl (ValidationError (ascii ''MusicNote'')
                    (field_error (ascii ''pitch'') p @ field_error (ascii ''duration'') d
                     @ field_error (ascii ''timing'') t)))"

text \<open>\<^verbatim>\<open>MusicNote(**note)\<close>: the argument of \<^verbatim>\<open>**\<close> has to be a mapping.\<close>

definition MusicNote_kwargs :: "(pyval \<Rightarrow> pystr option) \<Rightarrow> pyval \<Rightarrow> error + MusicNote" where
  "MusicNote_kwargs coerce_str v =
     (case v of
        VDict kw \<Rightarrow> MusicNote_new coerce_str kw
      | _ \<Rightarrow> Inl (TypeError (ascii ''argument after ** must be a mapping'')))"

subsection \<open>ChordProgression\<close>

record ChordProgression =
  cp_notes :: "MusicNote list"
  key :: pystr

text \<open>The characters that \<^verbatim>\<open>str.strip()\<close> removes (those for which \<^verbatim>\<open>isspace()\<close> holds).\<close>

definition is_space :: "nat \<Rightarrow> bool" where
  "is_space c = (c \<in> set [9, 10, 11, 12, 13, 28, 29, 30, 31, 32, 133, 160, 5760,
                          8192, 8193, 8194, 8195, 8196, 8197, 8198, 8199, 8200, 8201, 8202,
                          8232, 8233, 8239, 8287, 12288])"

definition py_strip :: "pystr \<Rightarrow> pystr" where
  "py_strip s = rev (dropWhile is_space (rev (dropWhile is_space s)))"

definition validate_key :: "pyval \<Rightarrow> pystr + pystr" where
  "validate_key v =
     (case v of
        VStr s \<Rightarrow> if py_strip s = [] then Inl (ascii ''Key cannot be empty'') else Inr s
      | _ \<Rightarrow> Inl (ascii ''Key must be a string''))"

text \<open>An element of a \<^verbatim>\<open>List[MusicNote]\<close> field is a mapping of the note's fields.\<close>

definition note_list_field :: "(pyval \<Rightarrow> pystr option) \<Rightarrow> pyval \<Rightarrow> pystr + MusicNote list" where
  "note_list_field coerce_str v =
     (case v of
        VList xs \<Rightarrow>
          (case traverse (MusicNote_kwargs coerce_str) xs of
             Inl e \<Rightarrow> Inl (error_text e)
           | Inr ns \<Rightarrow> Inr ns)
      | _ \<Rightarrow> Inl (ascii ''value is not a valid list''))"

definition ChordProgression_new ::
  "(pyval \<Rightarrow> pystr option) \<Rightarrow> (pystr \<times> pyval) list \<Rightarrow> error + ChordProgression" where
  "ChordProgression_new coerce_str kw =
     (let n = and_then (get_field (ascii ''notes'') kw) (note_list_field coerce_str);
          k = and_then (and_then (get_field (ascii ''key'') kw) (str_field coerce_str))
                (\<lambda>s. validate_key (VStr s))
      in case (n, k) of
           (Inr n', Inr k') \<Rightarrow> Inr \<lparr>cp_notes = n', key = k'\<rparr>
         | _ \<Rightarrow> Inl (ValidationError (ascii ''ChordProgression'')
                    (field_error (ascii ''notes'') n @ field_error (ascii ''key'') k)))"

definition ChordProgression_kwargs ::
  "(pyval \<Rightarrow> pystr option) \<Rightarrow> pyval \<Rightarrow> error + ChordProgression" where
  "ChordProgression_kwargs coerce_str v =
     (case v of
        VDict kw \<Rightarrow> ChordProgression_new coerce_str kw
      | _ \<Rightarrow> Inl (TypeError (ascii ''argument after ** must be a mapping'')))"

subsection \<open>RhythmicPattern\<close>

record RhythmicPattern =
  beats :: "real list"
  rp_tempo :: real

definition validate_tempo :: "real \<Rightarrow> pystr + real" where
  "validate_tempo v = (if v \<le> 0 then Inl (ascii ''Tempo must be a positive number'') else Inr v)"

definition RhythmicPattern_new :: "(pystr \<times> pyval) list \<Rightarrow> error + RhythmicPattern" where
  "RhythmicPattern_new kw =
     (let b = and_then (get_field (ascii ''beats'') kw) float_list_field;
          t = and_then (and_then (get_field (ascii ''tempo'') kw) float_field) validate_tempo
      in case (b, t) of
           (Inr b', Inr t') \<Rightarrow> Inr \<lparr>beats = b', rp_tempo = t'\<rparr>
         | _ \<Rightarrow> Inl (ValidationError (ascii ''RhythmicPattern'')
                    (field_error (ascii ''beats'') b @ field_error (ascii ''tempo'') t)))"

definition RhythmicPattern_kwargs :: "pyval \<Rightarrow> error + RhythmicPattern" where
  "RhythmicPattern_kwargs v =
     (case v of
        VDict kw \<Rightarrow> RhythmicPattern_new kw
      | _ \<Rightarrow> Inl (TypeError (ascii ''argument after ** must be a mapping'')))"

subsection \<open>validate_music_data\<close>

text \<open>The returned dict, with its three keys.\<close>

record MusicData =
  md_notes :: "MusicNote list"
  md_chords :: "ChordProgression list"
  md_rhythm :: RhythmicPattern

text \<open>\<^verbatim>\<open>for x in v\<close>: a list gives its elements, a string its characters, a bytes value its
  bytes as integers, a dict its keys; the other values are not iterable.\<close>

definition py_iter :: "pyval \<Rightarrow> error + pyval list" where
  "py_iter v =
     (case v of
        VList xs \<Rightarrow> Inr xs
      | VStr s \<Rightarrow> Inr (map (\<lambda>c. VStr [c]) s)
      | VBytes bs \<Rightarrow> Inr (map (\<lambda>b. VInt (int b)) bs)
      | VDict kw \<Rightarrow> Inr (map (\<lambda>(k, _). VStr k) kw)
      | _ \<Rightarrow> Inl (TypeError (ascii ''object is not iterable'')))"

text \<open>\<^verbatim>\<open>data.get(k, default)\<close>.\<close>

definition dict_get :: "(pystr \<times> pyval) list \<Rightarrow> pystr \<Rightarrow> pyval \<Rightarrow> pyval" where
  "dict_get data k dflt = (case map_of data k of None \<Rightarrow> dflt | Some v \<Rightarrow> v)"

text \<open>The body of the \<^verbatim>\<open>try\<close> block: notes, then chords, then rhythm; the first exception
  ends it.\<close>

definition validate_music_data_body ::
  "(pyval \<Rightarrow> pystr option) \<Rightarrow> (pystr \<times> pyval) list \<Rightarrow> error + MusicData" where
  "validate_music_data_body coerce_str data =
     and_then (and_then (py_iter (dict_get data (ascii ''notes'') (VList [])))
                 (traverse (MusicNote_kwargs coerce_str)))
       (\<lambda>ns. and_then (and_then (py_iter (dict_get data (ascii ''chords'') (VList [])))
                         (traverse (ChordProgression_kwargs coerce_str)))
         (\<lambda>cs. and_then (RhythmicPattern_kwargs (dict_get data (ascii ''rhythm'') (VDict [])))
           (\<lambda>r. Inr \<lparr>md_notes = ns, md_chords = cs, md_rhythm = r\<rparr>)))"

text \<open>The \<^verbatim>\<open>except Exception\<close> handler turns any exception \<open>e\<close> into
  \<^verbatim>\<open>ValueError(f"Invalid music data: {e}")\<close>. The two logging calls have no effect on the
  result and are left out.\<close>

definition validate_music_data ::
  "(pyval \<Rightarrow> pystr option) \<Rightarrow> (pystr \<times> pyval) list \<Rightarrow> error + MusicData" where
  "validate_music_data coerce_str data =
     (case validate_music_data_body coerce_str data of
        Inl e \<Rightarrow> Inl (ValueError (ascii ''Invalid music data: '' @ error_text e))
      | Inr r \<Rightarrow> Inr r)"

section \<open>services.py\<close>

record MusicInput =
  melody :: "int list"
  chords :: "pystr list"
  tempo :: int

text \<open>\<^verbatim>\<open>not xs or len(xs) < n\<close>: an empty list is false.\<close>

definition validate_input :: "MusicInput \<Rightarrow> error + bool" where
  "validate_input input_data =
     (if melody input_data = [] \<or> length (melody input_data) < 5
        then Inl (ValueError (ascii ''Melody must contain at least 5 notes''))
      else if chords input_data = [] \<or> length (chords input_data) < 2
        then Inl (ValueError (ascii ''At least 2 chords are required''))
      else if tempo input_data < 40 \<or> tempo input_data > 240
        then Inl (ValueError (ascii ''Tempo must be between 40 and 240 BPM''))
      else Inr True)"

subsection \<open>The part of numpy that the service uses\<close>

text \<open>
  Arrays of one and of two dimensions, with float elements. \<^verbatim>\<open>np.array(rows)\<close> of a list of
  one-dimensional arrays of equal length is a two-dimensional array with one row per
  element, and of the empty list the empty one-dimensional array. \<^verbatim>\<open>np.concatenate\<close> joins
  along the first axis; it raises ValueError for an empty sequence, for arrays that do not
  all have the same number of dimensions, and for two-dimensional arrays whose row lengths
  differ.
\<close>

datatype ndarray = Arr1 "real list" | Arr2 "real list list"

fun ndim :: "ndarray \<Rightarrow> nat" where
  "ndim (Arr1 _) = 1"
| "ndim (Arr2 _) = 2"

fun flatten :: "ndarray \<Rightarrow> real list" where
  "flatten (Arr1 xs) = xs"
| "flatten (Arr2 rows) = concat rows"

fun rows_of :: "ndarray \<Rightarrow> real list list" where
  "rows_of (Arr1 xs) = []"
| "rows_of (Arr2 rows) = rows"

definition np_array_rows :: "real list list \<Rightarrow> ndarray" where
  "np_array_rows rows = (if rows = [] then Arr1 [] else Arr2 rows)"

definition np_concatenate :: "ndarray list \<Rightarrow> error + ndarray" where
  "np_concatenate arrs =
     (case arrs of
        [] \<Rightarrow> Inl (ValueError (ascii ''need at least one array to concatenate''))
      | a # _ \<Rightarrow>
          if list_ex (\<lambda>b. ndim b \<noteq> ndim a) arrs
            then Inl (ValueError (ascii ''all the input arrays must have same number of dimensions''))
          else if ndim a = 1 then Inr (Arr1 (concat (map flatten arrs)))
          else if list_ex (\<lambda>r. length r \<noteq> length (hd (concat (map rows_of arrs))))
                    (concat (map rows_of arrs))
            then Inl (ValueError
              (ascii ''all the input array dimensions except for the concatenation axis must match exactly''))
          else Inr (Arr2 (concat (map rows_of arrs))))"

subsection \<open>MusicService\<close>

definition chord_map :: "(pystr \<times> real list) list" where
  "chord_map =
     [(ascii ''Cmaj7'', [1, 0, 0, 0, 0, 0, 0]),
      (ascii ''G7'', [0, 1, 0, 0, 0, 0, 0]),
      (ascii ''Am7'', [0, 0, 1, 0, 0, 0, 0]),
      (ascii ''D7'', [0, 0, 0, 1, 0, 0, 0]),
      (ascii ''Em7'', [0, 0, 0, 0, 1, 0, 0]),
      (ascii ''A7'', [0, 0, 0, 0, 0, 1, 0]),
      (ascii ''Fmaj7'', [0, 0, 0, 0, 0, 0, 1])]"

text \<open>\<^verbatim>\<open>chord_map.get(chord, [0]*7)\<close>, as the elements of the one-dimensional array returned.\<close>

definition chord_to_vector :: "pystr \<Rightarrow> real list" where
  "chord_to_vector chord = (case map_of chord_map chord of None \<Rightarrow> replicate 7 0 | Some v \<Rightarrow> v)"

definition process_input :: "MusicInput \<Rightarrow> error + ndarray" where
  "process_input input_data =
     (let m = Arr1 (map of_int (melody input_data));
          c = np_array_rows (map chord_to_vector (chords input_data));
          t = Arr1 [of_int (tempo input_data)]
      in np_concatenate [m, c, t])"

text \<open>\<^verbatim>\<open>int(x)\<close> of a float truncates towards zero.\<close>

definition py_int_of_float :: "real \<Rightarrow> int" where
  "py_int_of_float x = (if 0 \<le> x then \<lfloor>x\<rfloor> else \<lceil>x\<rceil>)"

definition convert_to_notes :: "ndarray \<Rightarrow> int list" where
  "convert_to_notes prediction = map py_int_of_float (flatten prediction)"

text \<open>
  \<open>generate_harmony\<close> returns its result together with the calls it made, in order, so that
  what happens before a failure can be stated. The model loaded by \<^verbatim>\<open>_load_model\<close> is outside
  the repository: its \<^verbatim>\<open>predict\<close> is a parameter. An exception raised anywhere in the
  \<^verbatim>\<open>try\<close> block is logged and raised again unchanged.
\<close>

datatype call =
    Call_validate_input
  | Call_logging_info
  | Call_process_input
  | Call_chord_to_vector pystr
  | Call_predict
  | Call_convert_to_notes
  | Call_logging_error pystr

definition generate_harmony ::
  "(ndarray \<Rightarrow> error + ndarray) \<Rightarrow> MusicInput \<Rightarrow> (error + int list) \<times> call list" where
  "generate_harmony predict input_data =
     (case validate_input input_data of
        Inl e \<Rightarrow> (Inl e, [Call_validate_input, Call_logging_error (error_text e)])
      | Inr _ \<Rightarrow>
          (let encoding = [Call_validate_input, Call_logging_info, Call_process_input]
                 @ map Call_chord_to_vector (chords input_data)
           in case process_input input_data of
                Inl e \<Rightarrow> (Inl e, encoding @ [Call_logging_error (error_text e)])
              | Inr processed_input \<Rightarrow>
                  (case predict processed_input of
                     Inl e \<Rightarrow> (Inl e, encoding @ [Call_predict, Call_logging_error (error_text e)])
                   | Inr prediction \<Rightarrow>
                       (Inr (convert_to_notes prediction),
                        encoding @ [Call_predict, Call_convert_to_notes]))))"

section \<open>The specification's vocabulary\<close>


text \<open>The chord vocabulary in the enumeration order of the specification.\<close>

definition chord_vocabulary :: "pystr list" where
  "chord_vocabulary =
     [ascii ''Cmaj7'', ascii ''G7'', ascii ''Am7'', ascii ''D7'', ascii ''Em7'', ascii ''A7'',
      ascii ''Fmaj7'']"

text \<open>The number that a list of digit values denotes in base ten, and the number that a
  string of decimal digits denotes.\<close>

definition dec_of :: "nat list \<Rightarrow> nat" where
  "dec_of vs = foldl (\<lambda>a v. 10 * a + v) 0 vs"

definition dec_val :: "pystr \<Rightarrow> nat" where
  "dec_val ds = dec_of (map digit_val ds)"

text \<open>The ASCII digit that has the value of a decimal digit.\<close>

definition ascii_digit :: "nat \<Rightarrow> nat" where
  "ascii_digit d = digit_char (digit_val d)"

text \<open>A string of ASCII digits without its superfluous leading zeros.\<close>

definition strip_zeros :: "pystr \<Rightarrow> pystr" where
  "strip_zeros ds = (let r = dropWhile (\<lambda>d. d = 48) ds in if r = [] then ascii ''0'' else r)"

text \<open>The normalized form of a note token: the letter in upper case, the accidental, the
  octave as an ASCII decimal numeral.\<close>

definition normalize_token :: "pystr \<Rightarrow> pystr" where
  "normalize_token t =
     (case re_match_note (ascii ''ABCDEFGabcdefg'') is_digit t of
        None \<Rightarrow> []
      | Some (g1, g2, g3) \<Rightarrow> py_upper g1 @ g2 @ strip_zeros (map ascii_digit g3))"

section \<open>Digits\<close>

lemma is_digit_ascii:
  assumes "48 \<le> c" "c \<le> 57"
  shows "is_digit c"
  using assms by (simp add: is_digit_def digit_zero_def digit_zeros_def)

lemma digit_val_ascii:
  assumes "48 \<le> c" "c \<le> 57"
  shows "digit_val c = c - 48"
  using assms by (simp add: digit_val_def digit_zero_def digit_zeros_def)

lemma is_ascii_digit_is_digit: "is_ascii_digit c \<Longrightarrow> is_digit c"
  by (simp add: is_ascii_digit_def is_digit_ascii)

lemma not_digit_specials: "\<not> is_digit 10" "\<not> is_digit 35" "\<not> is_digit 98"
  by (simp_all add: is_digit_def digit_zero_def digit_zeros_def)


lemma digit_val_lt:
  assumes "is_digit d"
  shows "digit_val d < 10"
proof -
  from assms obtain z where z: "digit_zero d = Some z"
    by (auto simp: is_digit_def split: option.splits)
  then have "z \<le> d \<and> d < z + 10"
    unfolding digit_zero_def by (auto simp: find_Some_iff)
  then have "d - z < 10" by arith
  with z show ?thesis by (simp add: digit_val_def)
qed

section \<open>The note pattern\<close>

lemma takeWhile_digits:
  assumes "\<forall>d \<in> set ds. digit d" "\<not> digit newline" "e = [] \<or> e = [newline]"
  shows "takeWhile digit (ds @ e) = ds" "dropWhile digit (ds @ e) = e"
  using assms by (auto simp: takeWhile_append2 dropWhile_append2)

lemma re_match_note_token:
  assumes "l \<in> set letters" "a \<in> {[], ascii ''#'', ascii ''b''}" "ds \<noteq> []"
    "\<forall>d \<in> set ds. digit d" "e = [] \<or> e = [newline]"
    and nd: "\<not> digit newline" "\<not> digit 35" "\<not> digit 98"
  shows "re_match_note letters digit (l # a @ ds @ e) = Some ([l], a, ds)"
proof -
  obtain d ds' where ds: "ds = d # ds'" using assms(3) by (cases ds) auto
  then have d: "d \<noteq> 35" "d \<noteq> 98" using assms(4) nd(2,3) by auto
  have acc: "(case a @ ds @ e of [] \<Rightarrow> [] | x # _ \<Rightarrow> if x = 35 \<or> x = 98 then [x] else []) = a"
    using assms(2) d ds by auto
  have tw: "takeWhile digit (ds @ e) = ds" and dw: "dropWhile digit (ds @ e) = e"
    using takeWhile_digits[OF assms(4) nd(1) assms(5)] by blast+
  have dr: "drop (length a) (a @ ds @ e) = ds @ e" by simp
  have "re_match_note letters digit (l # a @ ds @ e) =
      (if ds \<noteq> [] \<and> (e = [] \<or> e = [newline]) then Some ([l], a, ds) else None)"
    unfolding re_match_note_def list.case Let_def acc dr tw dw
    using assms(1) by simp
  then show ?thesis using assms(3,5) by simp
qed

lemma re_match_note_sound:
  assumes "re_match_note letters digit s = Some (g1, g2, g3)"
  shows "\<exists>l e. g1 = [l] \<and> s = l # g2 @ g3 @ e \<and> l \<in> set letters \<and> g2 \<in> {[], ascii ''#'', ascii ''b''} \<and>
        g3 \<noteq> [] \<and> (\<forall>d \<in> set g3. digit d) \<and> (e = [] \<or> e = [newline])"
proof (cases s)
  case Nil
  with assms show ?thesis by (simp add: re_match_note_def)
next
  case (Cons c r)
  define acc where "acc = (case r of [] \<Rightarrow> [] | x # _ \<Rightarrow> if x = 35 \<or> x = 98 then [x] else [])"
  have accs: "acc \<in> {[], ascii ''#'', ascii ''b''}" by (auto simp: acc_def split: list.splits)
  have pre: "r = acc @ drop (length acc) r" by (auto simp: acc_def split: list.splits)
  from assms Cons have c: "c \<in> set letters"
    by (auto simp: re_match_note_def split: if_splits)
  from assms Cons c have g: "g1 = [c]" "g2 = acc" "g3 = takeWhile digit (drop (length acc) r)"
    "g3 \<noteq> []" "dropWhile digit (drop (length acc) r) = [] \<or> dropWhile digit (drop (length acc) r) = [newline]"
    by (auto simp: re_match_note_def Let_def acc_def[symmetric] split: if_splits)
  have "drop (length acc) r = g3 @ dropWhile digit (drop (length acc) r)"
    by (simp add: g(3))
  with pre have "s = c # g2 @ g3 @ dropWhile digit (drop (length acc) r)"
    using Cons g(2) by metis
  moreover have "\<forall>d \<in> set g3. digit d" unfolding g(3) by (auto dest: set_takeWhileD)
  ultimately show ?thesis using g c accs by blast
qed


lemmas note_token_utils = re_match_note_token[where digit = is_digit,
    OF _ _ _ _ _ not_digit_specials[unfolded newline_def[symmetric]]]

section \<open>Parsing a note token\<close>

lemma upper_note_letter:
  assumes "l \<in> set (ascii ''ABCDEFGabcdefg'')"
  shows "upper_char l \<in> set (ascii ''ABCDEFG'')"
  using assms by (auto simp: upper_char_def)

lemma str_in_pitch_letter:
  assumes "u \<in> set (ascii ''ABCDEFG'')"
  shows "str_in [u] (ascii ''ABCDEFG'')"
  using assms by auto

lemma py_int_value:
  assumes "length ds \<le> 4300"
  shows "py_int ds = Inr (int (dec_val ds))"
  using assms by (simp add: py_int_def int_max_str_digits_def dec_val_def dec_of_def foldl_map)

lemma str_nat_limits:
  "str_nat 4300 = ascii ''4300''" "str_nat 4301 = ascii ''4301''"
  by (simp_all add: str_nat.simps digit_char_def)

lemma py_int_too_long:
  assumes "4300 < length ds"
  shows "py_int ds = Inl (ValueError (ascii ''Exceeds the limit (4300 digits) for integer string conversion: value has ''
           @ str_nat (length ds)
           @ ascii '' digits; use sys.set_int_max_str_digits() to increase the limit''))"
  using assms by (simp add: py_int_def int_max_str_digits_def str_nat_limits)

lemma dec_val_snoc: "dec_val (ds @ [d]) = 10 * dec_val ds + digit_val d"
  by (simp add: dec_val_def dec_of_def)

lemma parse_note_token:
  assumes "l \<in> set (ascii ''ABCDEFGabcdefg'')" "a \<in> {[], ascii ''#'', ascii ''b''}" "ds \<noteq> []"
    "\<forall>d \<in> set ds. is_digit d" "e = [] \<or> e = [newline]" "length ds \<le> 4300"
  shows "parse_note (l # a @ ds @ e) =
     Inr \<lparr>pitch = py_upper [l], accidental = Some a, octave = int (dec_val ds)\<rparr>"
proof -
  have m: "re_match_note (ascii ''ABCDEFGabcdefg'') is_digit (l # a @ ds @ e) = Some ([l], a, ds)"
    using note_token_utils[OF assms(1-5)] .
  have p: "str_in (py_upper [l]) (ascii ''ABCDEFG'')"
    using str_in_pitch_letter[OF upper_note_letter[OF assms(1)]] by (simp add: py_upper_def)
  have a: "a \<in> set [[], ascii ''#'', ascii ''b'']" using assms(2) by auto
  show ?thesis
    unfolding parse_note_def m option.case prod.case Let_def py_int_value[OF assms(6)] sum.case
    using p a by simp
qed

lemma parse_note_too_long:
  assumes "l \<in> set (ascii ''ABCDEFGabcdefg'')" "a \<in> {[], ascii ''#'', ascii ''b''}" "ds \<noteq> []"
    "\<forall>d \<in> set ds. is_digit d" "e = [] \<or> e = [newline]" "4300 < length ds"
  shows "parse_note (l # a @ ds @ e) =
     Inl (ValueError (ascii ''Exceeds the limit (4300 digits) for integer string conversion: value has ''
           @ str_nat (length ds)
           @ ascii '' digits; use sys.set_int_max_str_digits() to increase the limit''))"
proof -
  have m: "re_match_note (ascii ''ABCDEFGabcdefg'') is_digit (l # a @ ds @ e) = Some ([l], a, ds)"
    using note_token_utils[OF assms(1-5)] .
  show ?thesis
    unfolding parse_note_def m option.case prod.case Let_def py_int_too_long[OF assms(6)] sum.case ..
qed

lemma parse_note_accidental:
  assumes "parse_note t = Inr n"
  shows "\<exists>g1 g3. re_match_note (ascii ''ABCDEFGabcdefg'') is_digit t = Some (g1, the (accidental n), g3)
           \<and> accidental n \<noteq> None"
proof -
  from assms obtain g1 g2 g3 where
    m: "re_match_note (ascii ''ABCDEFGabcdefg'') is_digit t = Some (g1, g2, g3)"
    by (cases "re_match_note (ascii ''ABCDEFGabcdefg'') is_digit t") (auto simp: parse_note_def)
  from assms m have "accidental n = Some g2"
    by (auto simp: parse_note_def Let_def split: sum.splits if_splits)
  with m show ?thesis by auto
qed

text \<open>
  Claim C5, as stated, fails: a token of the letter C and 4301 digits matches the pattern,
  but \<^verbatim>\<open>int()\<close> refuses its digit group and \<open>parse_note\<close> raises the ValueError.
\<close>

theorem parse_note_digit_limit_counterexample:
  "parse_note (ascii ''C'' @ replicate 4301 49) =
     Inl (ValueError (ascii ''Exceeds the limit (4300 digits) for integer string conversion: value has 4301 digits; use sys.set_int_max_str_digits() to increase the limit''))"
proof -
  have 1: "67 \<in> set (ascii ''ABCDEFGabcdefg'')" by simp
  have 2: "[] \<in> {[], ascii ''#'', ascii ''b''}" by simp
  have 3: "replicate 4301 (49::nat) \<noteq> []" by simp
  have 4: "\<forall>d \<in> set (replicate 4301 (49::nat)). is_digit d" by (simp add: is_digit_ascii)
  have 5: "([]::pystr) = [] \<or> ([]::pystr) = [newline]" by simp
  have 6: "4300 < length (replicate 4301 (49::nat))" by simp
  from parse_note_too_long[OF 1 2 3 4 5 6] show ?thesis
    by (simp add: str_nat_limits)
qed

text \<open>
  Claim C5, amended. Every token that matches \<^verbatim>\<open>^[A-Ga-g][#b]?\d+$\<close> (a letter \<open>l\<close> of the
  class, an accidental group \<open>a\<close> that is empty, \<^verbatim>\<open>#\<close> or \<^verbatim>\<open>b\<close>, a non-empty run \<open>ds\<close> of decimal
  digits of any script, and possibly the final newline that \<^verbatim>\<open>$\<close> tolerates) and whose digit
  group has at most 4300 digits is parsed without error: the pitch of the note is the letter
  group in upper case, one of A to G; the accidental is the captured group; the octave is
  the digit group read as a decimal number, which is not negative. A matching token with
  more than 4300 digits makes \<open>parse_note\<close> raise a ValueError.
\<close>

theorem parse_note_recovers_components:
  assumes "l \<in> set (ascii ''ABCDEFGabcdefg'')" "a \<in> {[], ascii ''#'', ascii ''b''}" "ds \<noteq> []"
    "\<forall>d \<in> set ds. is_digit d" "e = [] \<or> e = [newline]"
  shows "(length ds \<le> 4300 \<longrightarrow>
            parse_note (l # a @ ds @ e) =
              Inr \<lparr>pitch = py_upper [l], accidental = Some a, octave = int (dec_val ds)\<rparr>
            \<and> py_upper [l] \<in> set [ascii ''A'', ascii ''B'', ascii ''C'', ascii ''D'', ascii ''E'',
                                  ascii ''F'', ascii ''G'']
            \<and> (l \<in> set (ascii ''ABCDEFG'') \<longrightarrow> py_upper [l] = [l])
            \<and> (l \<in> set (ascii ''abcdefg'') \<longrightarrow> py_upper [l] = [l - 32])
            \<and> dec_val ds = foldl (\<lambda>n d. 10 * n + digit_val d) 0 ds
            \<and> (\<forall>d \<in> set ds. digit_val d < 10))
         \<and> (4300 < length ds \<longrightarrow> (\<exists>m. parse_note (l # a @ ds @ e) = Inl (ValueError m)))"
proof -
  have "upper_char l \<in> set (ascii ''ABCDEFG'')" using upper_note_letter[OF assms(1)] .
  then have u: "py_upper [l] \<in> set [ascii ''A'', ascii ''B'', ascii ''C'', ascii ''D'', ascii ''E'',
                                  ascii ''F'', ascii ''G'']"
    by (auto simp: py_upper_def)
  have v: "l \<in> set (ascii ''ABCDEFG'') \<longrightarrow> py_upper [l] = [l]"
    "l \<in> set (ascii ''abcdefg'') \<longrightarrow> py_upper [l] = [l - 32]"
    by (auto simp: py_upper_def upper_char_def)
  have d: "dec_val ds = foldl (\<lambda>n d. 10 * n + digit_val d) 0 ds"
    by (simp add: dec_val_def dec_of_def foldl_map)
  have dl: "\<forall>d \<in> set ds. digit_val d < 10" using assms(4) digit_val_lt by blast
  have p: "length ds \<le> 4300 \<Longrightarrow> parse_note (l # a @ ds @ e) =
              Inr \<lparr>pitch = py_upper [l], accidental = Some a, octave = int (dec_val ds)\<rparr>"
    using parse_note_token[OF assms] .
  have q: "4300 < length ds \<Longrightarrow> \<exists>m. parse_note (l # a @ ds @ e) = Inl (ValueError m)"
    using parse_note_too_long[OF assms] by blast
  show ?thesis using u v d dl p q by blast
qed

lemma dec_val_examples: "dec_val [49, 50] = 12" "dec_val [1639] = 7"
  by (simp_all add: dec_val_def dec_of_def digit_val_ascii)
     (simp add: digit_val_def digit_zero_def digit_zeros_def)

theorem parse_note_recovers_components_witness:
  "parse_note (ascii ''eb12'') = Inr \<lparr>pitch = ascii ''E'', accidental = Some (ascii ''b''), octave = 12\<rparr>
   \<and> parse_note (ascii ''c'' @ [1639, newline]) = Inr \<lparr>pitch = ascii ''C'', accidental = Some [], octave = 7\<rparr>
   \<and> (\<exists>m. parse_note (ascii ''C'' @ replicate 4301 49) = Inl (ValueError m))"
proof -
  have 1: "101 \<in> set (ascii ''ABCDEFGabcdefg'')" by simp
  have 2: "ascii ''b'' \<in> {[], ascii ''#'', ascii ''b''}" by simp
  have 3: "ascii ''12'' \<noteq> []" by simp
  have 4: "\<forall>d \<in> set (ascii ''12''). is_digit d" by (simp add: is_digit_ascii)
  have 5: "([]::pystr) = [] \<or> ([]::pystr) = [newline]" by simp
  have u: "py_upper [101] = ascii ''E''" "py_upper [99] = ascii ''C''"
    by (simp_all add: py_upper_def upper_char_def)
  have 6: "99 \<in> set (ascii ''ABCDEFGabcdefg'')" by simp
  have 7: "[] \<in> {[], ascii ''#'', ascii ''b''}" by simp
  have 8: "[1639::nat] \<noteq> []" by simp
  have 9: "\<forall>d \<in> set [1639]. is_digit d" by (simp add: is_digit_def digit_zero_def digit_zeros_def)
  have 10: "[newline] = [] \<or> [newline] = [newline]" by simp
  have 11: "67 \<in> set (ascii ''ABCDEFGabcdefg'')" by simp
  have 12: "replicate 4301 (49::nat) \<noteq> []" by simp
  have 13: "\<forall>d \<in> set (replicate 4301 (49::nat)). is_digit d" by (simp add: is_digit_ascii)
  have a: "parse_note (101 # ascii ''b'' @ ascii ''12'' @ []) =
      Inr \<lparr>pitch = py_upper [101], accidental = Some (ascii ''b''), octave = int (dec_val (ascii ''12''))\<rparr>"
    using parse_note_recovers_components[OF 1 2 3 4 5] by simp
  have b: "parse_note (99 # [] @ [1639] @ [newline]) =
      Inr \<lparr>pitch = py_upper [99], accidental = Some [], octave = int (dec_val [1639])\<rparr>"
    using parse_note_recovers_components[OF 6 7 8 9 10] by simp
  have c: "\<exists>m. parse_note (67 # [] @ replicate 4301 49 @ []) = Inl (ValueError m)"
    using parse_note_recovers_components[OF 11 7 12 13 5] by simp
  show ?thesis using a b c by (simp add: u dec_val_examples)
qed

lemma parse_C4:
  "parse_note (ascii ''C4'') = Inr \<lparr>pitch = ascii ''C'', accidental = Some [], octave = 4\<rparr>"
proof -
  have 1: "67 \<in> set (ascii ''ABCDEFGabcdefg'')" by simp
  have 2: "[] \<in> {[], ascii ''#'', ascii ''b''}" by simp
  have 3: "[52::nat] \<noteq> []" by simp
  have 4: "\<forall>d \<in> set [52]. is_digit d" by (simp add: is_digit_ascii)
  have 5: "([]::pystr) = [] \<or> ([]::pystr) = [newline]" by simp
  have 6: "length [52::nat] \<le> 4300" by simp
  have v: "dec_val [52] = 4" by (simp add: dec_val_def dec_of_def digit_val_ascii)
  from parse_note_token[OF 1 2 3 4 5 6] show ?thesis
    by (simp add: py_upper_def upper_char_def v)
qed

lemma format_note_accidental_none:
  "format_note (n\<lparr>accidental := Some []\<rparr>) = format_note (n\<lparr>accidental := None\<rparr>)"
  by (simp add: format_note_def)

text \<open>
  Claim C6, as stated, fails: for a token without accidental, such as \<^verbatim>\<open>C4\<close>, the note that
  \<open>parse_note\<close> returns does not carry the data model's value for "no accidental" (None, the
  default of the field, which \<^verbatim>\<open>Note(pitch='C', octave=4)\<close> has) but the empty string that
  the pattern captured.
\<close>

theorem parse_note_empty_accidental_counterexample:
  "parse_note (ascii ''C4'') = Inr \<lparr>pitch = ascii ''C'', accidental = Some [], octave = 4\<rparr>
   \<and> Note_default (ascii ''C'') 4 = \<lparr>pitch = ascii ''C'', accidental = None, octave = 4\<rparr>
   \<and> parse_note (ascii ''C4'') \<noteq> Inr (Note_default (ascii ''C'') 4)"
  using parse_C4 by (simp add: Note_default_def)

text \<open>
  Claim C6, amended. For every valid token that \<open>parse_note\<close> parses (every valid token of at
  most 4300 digits is parsed) the stored accidental is the captured group itself: the empty
  string (not None) when the token has no accidental, which \<open>format_note\<close> treats exactly as
  it treats None; and \<^verbatim>\<open>#\<close> or \<^verbatim>\<open>b\<close> otherwise.
\<close>

theorem parse_note_accidental_stored:
  assumes "l \<in> set (ascii ''ABCDEFGabcdefg'')" "a \<in> {[], ascii ''#'', ascii ''b''}" "ds \<noteq> []"
    "\<forall>d \<in> set ds. is_digit d" "e = [] \<or> e = [newline]"
  shows "(length ds \<le> 4300 \<longrightarrow> (\<exists>n. parse_note (l # a @ ds @ e) = Inr n))
         \<and> (\<forall>n. parse_note (l # a @ ds @ e) = Inr n \<longrightarrow>
               accidental n = Some a
               \<and> (a = [] \<longrightarrow> accidental n = Some [] \<and> accidental n \<noteq> None
                     \<and> format_note n = format_note (n\<lparr>accidental := None\<rparr>))
               \<and> (a \<noteq> [] \<longrightarrow> accidental n = Some (ascii ''#'') \<or> accidental n = Some (ascii ''b'')))"
proof (intro conjI allI impI)
  assume "length ds \<le> 4300"
  then show "\<exists>n. parse_note (l # a @ ds @ e) = Inr n"
    using parse_note_token[OF assms] by blast
next
  fix n assume p: "parse_note (l # a @ ds @ e) = Inr n"
  have m: "re_match_note (ascii ''ABCDEFGabcdefg'') is_digit (l # a @ ds @ e) = Some ([l], a, ds)"
    using note_token_utils[OF assms] .
  from parse_note_accidental[OF p] m show acc: "accidental n = Some a" by auto
  { assume "a = []"
    with acc show "accidental n = Some []" by simp
    from acc show "accidental n \<noteq> None" by simp
    from acc \<open>a = []\<close> show "format_note n = format_note (n\<lparr>accidental := None\<rparr>)"
      by (simp add: format_note_def) }
  { assume "a \<noteq> []"
    with acc assms(2) show "accidental n = Some (ascii ''#'') \<or> accidental n = Some (ascii ''b'')"
      by auto }
qed

theorem parse_note_accidental_stored_witness:
  "(\<exists>n. parse_note (ascii ''C4'') = Inr n \<and> accidental n = Some [] \<and> accidental n \<noteq> None)
   \<and> (\<exists>n. parse_note (ascii ''d#5'') = Inr n \<and> accidental n = Some (ascii ''#''))"
proof -
  have 1: "67 \<in> set (ascii ''ABCDEFGabcdefg'')" by simp
  have 2: "[] \<in> {[], ascii ''#'', ascii ''b''}" by simp
  have 3: "[52::nat] \<noteq> []" by simp
  have 4: "\<forall>d \<in> set [52]. is_digit d" by (simp add: is_digit_ascii)
  have 5: "([]::pystr) = [] \<or> ([]::pystr) = [newline]" by simp
  have 6: "100 \<in> set (ascii ''ABCDEFGabcdefg'')" by simp
  have 7: "ascii ''#'' \<in> {[], ascii ''#'', ascii ''b''}" by simp
  have 8: "[53::nat] \<noteq> []" by simp
  have 9: "\<forall>d \<in> set [53]. is_digit d" by (simp add: is_digit_ascii)
  have a: "\<exists>n. parse_note (ascii ''C4'') = Inr n \<and> accidental n = Some [] \<and> accidental n \<noteq> None"
    using parse_note_accidental_stored[OF 1 2 3 4 5] by auto
  have b: "\<exists>n. parse_note (ascii ''d#5'') = Inr n \<and> accidental n = Some (ascii ''#'')"
    using parse_note_accidental_stored[OF 6 7 8 9 5] by auto
  show ?thesis using a b by blast
qed

section \<open>Scales\<close>

lemma generate_scale_parsed:
  assumes "parse_note r = Inr n"
  shows "generate_scale lo r t =
    (if py_lower lo t = ascii ''major'' then
       Inr [n, Note_default (ascii ''D'') (octave n), Note_default (ascii ''E'') (octave n),
            Note_default (ascii ''F'') (octave n), Note_default (ascii ''G'') (octave n),
            Note_default (ascii ''A'') (octave n), Note_default (ascii ''B'') (octave n)]
     else if py_lower lo t = ascii ''minor'' then
       Inr [n, Note_default (ascii ''D'') (octave n), Note_default (ascii ''F'') (octave n),
            Note_default (ascii ''G'') (octave n), Note_default (ascii ''A'') (octave n),
            Note_default (ascii ''B'') (octave n), Note_default (ascii ''C'') (octave n + 1)]
     else Inl (ValueError (ascii ''Unsupported scale type: '' @ t)))"
  using assms by (simp add: generate_scale_def)

lemma lower_eval:
  "py_lower lo (ascii ''MAJOR'') = ascii ''major''" "py_lower lo (ascii ''Minor'') = ascii ''minor''"
  "py_lower lo (ascii ''dorian'') = ascii ''dorian''"
  by (simp_all add: py_lower_def)

text \<open>
  Claim C4. For a root token that parses to the note \<open>n\<close>, with the scale type compared after
  \<^verbatim>\<open>lower()\<close>: the notes of a major scale are the seven notes \<open>n\<close>, then D, E, F, G, A, B without
  accidental, all at the octave of \<open>n\<close>; the notes of a minor scale are \<open>n\<close>, then D, F, G, A, B
  at the octave of \<open>n\<close>, then C one octave higher, so the seventh note's octave is the octave
  of \<open>n\<close> plus one; in both the first note is \<open>n\<close>. Any other scale type fails with the error
  "Unsupported scale type".
\<close>

theorem scale_notes_by_type:
  assumes "parse_note r = Inr n"
  shows "Scale_init lo r t =
    (if py_lower lo t = ascii ''major'' then
       Inr \<lparr>scale_root = r, scale_type = t, scale_notes =
           [n,
            \<lparr>pitch = ascii ''D'', accidental = None, octave = octave n\<rparr>,
            \<lparr>pitch = ascii ''E'', accidental = None, octave = octave n\<rparr>,
            \<lparr>pitch = ascii ''F'', accidental = None, octave = octave n\<rparr>,
            \<lparr>pitch = ascii ''G'', accidental = None, octave = octave n\<rparr>,
            \<lparr>pitch = ascii ''A'', accidental = None, octave = octave n\<rparr>,
            \<lparr>pitch = ascii ''B'', accidental = None, octave = octave n\<rparr>]\<rparr>
     else if py_lower lo t = ascii ''minor'' then
       Inr \<lparr>scale_root = r, scale_type = t, scale_notes =
           [n,
            \<lparr>pitch = ascii ''D'', accidental = None, octave = octave n\<rparr>,
            \<lparr>pitch = ascii ''F'', accidental = None, octave = octave n\<rparr>,
            \<lparr>pitch = ascii ''G'', accidental = None, octave = octave n\<rparr>,
            \<lparr>pitch = ascii ''A'', accidental = None, octave = octave n\<rparr>,
            \<lparr>pitch = ascii ''B'', accidental = None, octave = octave n\<rparr>,
            \<lparr>pitch = ascii ''C'', accidental = None, octave = octave n + 1\<rparr>]\<rparr>
     else Inl (ValueError (ascii ''Unsupported scale type: '' @ t)))
   \<and> (\<forall>s. Scale_init lo r t = Inr s \<longrightarrow>
         length (get_notes s) = 7 \<and> get_notes s ! 0 = n
         \<and> map octave (take 6 (get_notes s)) = replicate 6 (octave n)
         \<and> (py_lower lo t = ascii ''major'' \<longrightarrow>
               map pitch (drop 1 (get_notes s)) =
                 [ascii ''D'', ascii ''E'', ascii ''F'', ascii ''G'', ascii ''A'', ascii ''B'']
               \<and> octave (get_notes s ! 6) = octave n)
         \<and> (py_lower lo t = ascii ''minor'' \<longrightarrow>
               map pitch (drop 1 (get_notes s)) =
                 [ascii ''D'', ascii ''F'', ascii ''G'', ascii ''A'', ascii ''B'', ascii ''C'']
               \<and> octave (get_notes s ! 6) = octave n + 1))"
proof -
  have eq: "Scale_init lo r t =
    (if py_lower lo t = ascii ''major'' then
       Inr \<lparr>scale_root = r, scale_type = t, scale_notes =
           [n,
            \<lparr>pitch = ascii ''D'', accidental = None, octave = octave n\<rparr>,
            \<lparr>pitch = ascii ''E'', accidental = None, octave = octave n\<rparr>,
            \<lparr>pitch = ascii ''F'', accidental = None, octave = octave n\<rparr>,
            \<lparr>pitch = ascii ''G'', accidental = None, octave = octave n\<rparr>,
            \<lparr>pitch = ascii ''A'', accidental = None, octave = octave n\<rparr>,
            \<lparr>pitch = ascii ''B'', accidental = None, octave = octave n\<rparr>]\<rparr>
     else if py_lower lo t = ascii ''minor'' then
       Inr \<lparr>scale_root = r, scale_type = t, scale_notes =
           [n,
            \<lparr>pitch = ascii ''D'', accidental = None, octave = octave n\<rparr>,
            \<lparr>pitch = ascii ''F'', accidental = None, octave = octave n\<rparr>,
            \<lparr>pitch = ascii ''G'', accidental = None, octave = octave n\<rparr>,
            \<lparr>pitch = ascii ''A'', accidental = None, octave = octave n\<rparr>,
            \<lparr>pitch = ascii ''B'', accidental = None, octave = octave n\<rparr>,
            \<lparr>pitch = ascii ''C'', accidental = None, octave = octave n + 1\<rparr>]\<rparr>
     else Inl (ValueError (ascii ''Unsupported scale type: '' @ t)))"
    unfolding Scale_init_def generate_scale_parsed[OF assms] Note_default_def by simp
  have rest: "\<forall>s. Scale_init lo r t = Inr s \<longrightarrow>
         length (get_notes s) = 7 \<and> get_notes s ! 0 = n
         \<and> map octave (take 6 (get_notes s)) = replicate 6 (octave n)
         \<and> (py_lower lo t = ascii ''major'' \<longrightarrow>
               map pitch (drop 1 (get_notes s)) =
                 [ascii ''D'', ascii ''E'', ascii ''F'', ascii ''G'', ascii ''A'', ascii ''B'']
               \<and> octave (get_notes s ! 6) = octave n)
         \<and> (py_lower lo t = ascii ''minor'' \<longrightarrow>
               map pitch (drop 1 (get_notes s)) =
                 [ascii ''D'', ascii ''F'', ascii ''G'', ascii ''A'', ascii ''B'', ascii ''C'']
               \<and> octave (get_notes s ! 6) = octave n + 1)"
    unfolding eq get_notes_def
    by (auto simp: numeral_eq_Suc split: if_splits)
  show ?thesis using eq rest by (rule conjI)
qed

theorem scale_notes_by_type_witness:
  "Scale_init (\<lambda>s i. [s ! i]) (ascii ''C4'') (ascii ''MAJOR'') =
     Inr \<lparr>scale_root = ascii ''C4'', scale_type = ascii ''MAJOR'', scale_notes =
       [\<lparr>pitch = ascii ''C'', accidental = Some [], octave = 4\<rparr>,
        \<lparr>pitch = ascii ''D'', accidental = None, octave = 4\<rparr>,
        \<lparr>pitch = ascii ''E'', accidental = None, octave = 4\<rparr>,
        \<lparr>pitch = ascii ''F'', accidental = None, octave = 4\<rparr>,
        \<lparr>pitch = ascii ''G'', accidental = None, octave = 4\<rparr>,
        \<lparr>pitch = ascii ''A'', accidental = None, octave = 4\<rparr>,
        \<lparr>pitch = ascii ''B'', accidental = None, octave = 4\<rparr>]\<rparr>
   \<and> Scale_init (\<lambda>s i. [s ! i]) (ascii ''C4'') (ascii ''Minor'') =
     Inr \<lparr>scale_root = ascii ''C4'', scale_type = ascii ''Minor'', scale_notes =
       [\<lparr>pitch = ascii ''C'', accidental = Some [], octave = 4\<rparr>,
        \<lparr>pitch = ascii ''D'', accidental = None, octave = 4\<rparr>,
        \<lparr>pitch = ascii ''F'', accidental = None, octave = 4\<rparr>,
        \<lparr>pitch = ascii ''G'', accidental = None, octave = 4\<rparr>,
        \<lparr>pitch = ascii ''A'', accidental = None, octave = 4\<rparr>,
        \<lparr>pitch = ascii ''B'', accidental = None, octave = 4\<rparr>,
        \<lparr>pitch = ascii ''C'', accidental = None, octave = 5\<rparr>]\<rparr>
   \<and> Scale_init (\<lambda>s i. [s ! i]) (ascii ''C4'') (ascii ''dorian'') =
       Inl (ValueError (ascii ''Unsupported scale type: dorian''))"
proof -
  note a = scale_notes_by_type[OF parse_C4, of "\<lambda>s i. [s ! i]" "ascii ''MAJOR''", THEN conjunct1]
  note b = scale_notes_by_type[OF parse_C4, of "\<lambda>s i. [s ! i]" "ascii ''Minor''", THEN conjunct1]
  note c = scale_notes_by_type[OF parse_C4, of "\<lambda>s i. [s ! i]" "ascii ''dorian''", THEN conjunct1]
  show ?thesis unfolding a b c lower_eval by simp
qed

section \<open>The chord encoder\<close>

lemma chord_to_vector_length: "length (chord_to_vector c) = 7"
  by (simp add: chord_to_vector_def chord_map_def)

lemma chord_to_vector_unknown:
  assumes "c \<notin> set chord_vocabulary"
  shows "chord_to_vector c = replicate 7 0"
  using assms by (simp add: chord_to_vector_def chord_map_def chord_vocabulary_def numeral_eq_Suc)

lemma chord_to_vector_known:
  assumes "i < 7"
  shows "chord_to_vector (chord_vocabulary ! i) = (replicate 7 0)[i := 1]"
proof -
  from assms have "i \<in> {0, 1, 2, 3, 4, 5, 6}" by auto
  then show ?thesis
    by (elim insertE emptyE)
       (simp_all add: chord_to_vector_def chord_map_def chord_vocabulary_def numeral_eq_Suc)
qed

text \<open>
  Claim C3. The chord encoder is total: for every string it returns a vector of seven
  elements; the \<open>i\<close>-th chord of the vocabulary Cmaj7, G7, Am7, D7, Em7, A7, Fmaj7 gives the
  one-hot vector with the 1 at position \<open>i\<close>; every string outside the vocabulary gives the
  vector of seven zeros.
\<close>

theorem chord_to_vector_total:
  "length (chord_to_vector c) = 7
   \<and> (\<forall>i < 7. chord_to_vector (chord_vocabulary ! i) = (replicate 7 0)[i := 1])
   \<and> (c \<notin> set chord_vocabulary \<longrightarrow> chord_to_vector c = replicate 7 0)"
  using chord_to_vector_length chord_to_vector_unknown chord_to_vector_known by blast

theorem chord_to_vector_total_witness:
  "length (chord_to_vector (ascii ''Bdim'')) = 7
   \<and> chord_to_vector (ascii ''Am7'') = [0, 0, 1, 0, 0, 0, 0]
   \<and> chord_to_vector (ascii ''Bdim'') = [0, 0, 0, 0, 0, 0, 0]"
proof -
  have 1: "(ascii ''Bdim'') \<notin> set chord_vocabulary" by (simp add: chord_vocabulary_def)
  have 2: "chord_vocabulary ! 2 = ascii ''Am7''" by (simp add: chord_vocabulary_def)
  have 3: "(2::nat) < 7" by simp
  have 4: "(replicate 7 (0::real))[2 := 1] = [0, 0, 1, 0, 0, 0, 0]" by (simp add: numeral_eq_Suc)
  have 5: "replicate 7 (0::real) = [0, 0, 0, 0, 0, 0, 0]" by (simp add: numeral_eq_Suc)
  from chord_to_vector_total[of "(ascii ''Bdim'')"] 1 2 3 4 5 show ?thesis by (metis (no_types))
qed

section \<open>The harmony request\<close>

lemma validate_input_fails_iff:
  "isl (validate_input inp) \<longleftrightarrow>
     length (melody inp) < 5 \<or> length (chords inp) < 2 \<or> tempo inp < 40 \<or> 240 < tempo inp"
  by (auto simp: validate_input_def)

lemma validate_input_error:
  assumes "validate_input inp = Inl e"
  shows "e \<in> {ValueError (ascii ''Melody must contain at least 5 notes''),
              ValueError (ascii ''At least 2 chords are required''),
              ValueError (ascii ''Tempo must be between 40 and 240 BPM'')}"
  using assms by (auto simp: validate_input_def split: if_splits)

lemma generate_harmony_rejected:
  assumes "validate_input inp = Inl e"
  shows "generate_harmony predict inp = (Inl e, [Call_validate_input, Call_logging_error (error_text e)])"
  using assms by (simp add: generate_harmony_def)

text \<open>
  Claim C1. Validation of a harmony request fails exactly when the melody has fewer than 5
  entries, or there are fewer than 2 chords, or the tempo is below 40 or above 240; the
  failure is a ValueError with a message; and \<open>generate_harmony\<close> then raises that error
  having called nothing but the validation and the error log: neither \<open>_process_input\<close>, nor
  the chord encoder, nor the model.
\<close>

theorem validation_rejects_before_encoding:
  "(isl (validate_input inp) \<longleftrightarrow>
      length (melody inp) < 5 \<or> length (chords inp) < 2 \<or> tempo inp < 40 \<or> 240 < tempo inp)
   \<and> (\<forall>e. validate_input inp = Inl e \<longrightarrow>
        (\<exists>m. m \<noteq> [] \<and> e = ValueError m)
        \<and> generate_harmony predict inp =
            (Inl e, [Call_validate_input, Call_logging_error (error_text e)])
        \<and> Call_process_input \<notin> set (snd (generate_harmony predict inp))
        \<and> (\<forall>c. Call_chord_to_vector c \<notin> set (snd (generate_harmony predict inp)))
        \<and> Call_predict \<notin> set (snd (generate_harmony predict inp)))"
proof -
  have "\<exists>m. m \<noteq> [] \<and> e = ValueError m" if "validate_input inp = Inl e" for e
    using validate_input_error[OF that] by auto
  then show ?thesis
    using validate_input_fails_iff[of inp] generate_harmony_rejected[of inp _ predict] by auto
qed

theorem validation_rejects_before_encoding_witness:
  "generate_harmony (\<lambda>v. Inr v) \<lparr>melody = [60, 62, 64, 65], chords = [ascii ''Cmaj7'', ascii ''G7''], tempo = 120\<rparr>
     = (Inl (ValueError (ascii ''Melody must contain at least 5 notes'')),
        [Call_validate_input, Call_logging_error (ascii ''Melody must contain at least 5 notes'')])"
proof -
  let ?inp = "\<lparr>melody = [60, 62, 64, 65], chords = [ascii ''Cmaj7'', ascii ''G7''], tempo = 120\<rparr>"
  have v: "validate_input ?inp = Inl (ValueError (ascii ''Melody must contain at least 5 notes''))"
    by (simp add: validate_input_def)
  have t: "error_text (ValueError (ascii ''Melody must contain at least 5 notes'')) = ascii ''Melody must contain at least 5 notes''"
    by (simp add: error_text_def)
  from validation_rejects_before_encoding[of ?inp "\<lambda>v. Inr v"] v
  have "generate_harmony (\<lambda>v. Inr v) ?inp =
      (Inl (ValueError (ascii ''Melody must contain at least 5 notes'')),
       [Call_validate_input, Call_logging_error (error_text (ValueError (ascii ''Melody must contain at least 5 notes'')))])"
    by blast
  then show ?thesis unfolding t .
qed

text \<open>
  The encoding step. The melody and the tempo are one-dimensional arrays, but the array of
  the chord vectors has two dimensions as soon as there is a chord, and \<^verbatim>\<open>np.concatenate\<close>
  refuses arrays of different dimensions: \<open>_process_input\<close> returns a vector only for a
  request without chords, which validation rejects.
\<close>

lemma process_input_chords_raises:
  assumes "chords inp \<noteq> []"
  shows "process_input inp = Inl (ValueError (ascii ''all the input arrays must have same number of dimensions''))"
  using assms by (simp add: process_input_def np_concatenate_def np_array_rows_def)

lemma process_input_no_chords:
  assumes "chords inp = []"
  shows "process_input inp = Inr (Arr1 (map of_int (melody inp) @ [of_int (tempo inp)]))"
  using assms by (simp add: process_input_def np_concatenate_def np_array_rows_def)

lemma generate_harmony_never_returns:
  "\<exists>e. fst (generate_harmony predict inp) = Inl e"
proof (cases "validate_input inp")
  case (Inl e)
  then show ?thesis by (simp add: generate_harmony_def)
next
  case (Inr b)
  then have "chords inp \<noteq> []" by (auto simp: validate_input_def split: if_splits)
  from process_input_chords_raises[OF this] Inr show ?thesis
    by (simp add: generate_harmony_def)
qed

text \<open>
  Claim C2 says that encoding a valid request gives one flat vector of length
  \<open>len(melody) + 7 * len(chords) + 1\<close>, 20 for a melody of 5 notes, 2 chords and tempo 120.
  On that request, which passes validation, the code raises a ValueError instead.
\<close>

theorem process_input_valid_request_raises:
  "validate_input \<lparr>melody = [60, 62, 64, 65, 67], chords = [ascii ''Cmaj7'', ascii ''G7''], tempo = 120\<rparr> = Inr True
   \<and> process_input \<lparr>melody = [60, 62, 64, 65, 67], chords = [ascii ''Cmaj7'', ascii ''G7''], tempo = 120\<rparr>
       = Inl (ValueError (ascii ''all the input arrays must have same number of dimensions''))"
  by (simp add: validate_input_def process_input_def np_concatenate_def np_array_rows_def)

section \<open>MusicNote construction\<close>

















section \<open>Batch validation\<close>

lemma traverse_first_error:
  assumes "\<forall>y \<in> set pre. \<not> isl (f y)" "f x = Inl e"
  shows "traverse f (pre @ x # post) = Inl e"
  using assms by (induction pre) (auto split: sum.splits)

lemma traverse_all_ok:
  assumes "\<forall>y \<in> set xs. \<not> isl (f y)"
  shows "traverse f xs = Inr (map (\<lambda>y. projr (f y)) xs)"
  using assms by (induction xs) (auto split: sum.splits)

lemma traverse_error_elem:
  assumes "traverse f xs = Inl e"
  shows "\<exists>pre x post. xs = pre @ x # post \<and> (\<forall>y \<in> set pre. \<not> isl (f y)) \<and> f x = Inl e"
  using assms
proof (induction xs)
  case Nil
  then show ?case by simp
next
  case (Cons a xs)
  show ?case
  proof (cases "f a")
    case (Inl e')
    with Cons.prems have "e' = e" by simp
    with Inl have "a # xs = [] @ a # xs \<and> (\<forall>y \<in> set []. \<not> isl (f y)) \<and> f a = Inl e" by simp
    then show ?thesis by blast
  next
    case (Inr b)
    with Cons.prems have "traverse f xs = Inl e" by (simp split: sum.splits)
    from Cons.IH[OF this] obtain pre x post where
      h: "xs = pre @ x # post" "\<forall>y \<in> set pre. \<not> isl (f y)" "f x = Inl e" by blast
    with Inr have "a # xs = (a # pre) @ x # post \<and> (\<forall>y \<in> set (a # pre). \<not> isl (f y)) \<and> f x = Inl e"
      by simp
    then show ?thesis by blast
  qed
qed

lemma validate_music_data_wrapped:
  assumes "validate_music_data co data = Inl e"
  shows "\<exists>m. e = ValueError (ascii ''Invalid music data: '' @ m)"
  using assms by (auto simp: validate_music_data_def split: sum.splits)

lemma validate_music_data_wraps:
  assumes "validate_music_data_body co data = Inl e"
  shows "validate_music_data co data = Inl (ValueError (ascii ''Invalid music data: '' @ error_text e))"
  using assms by (simp add: validate_music_data_def)

lemma body_notes_error:
  assumes "py_iter (dict_get data (ascii ''notes'') (VList [])) = Inr (pre @ x # post)"
    "\<forall>y \<in> set pre. \<not> isl ((MusicNote_kwargs co) y)" "(MusicNote_kwargs co) x = Inl e"
  shows "validate_music_data_body co data = Inl e"
  unfolding validate_music_data_body_def assms(1)
  by (simp add: and_then_def traverse_first_error[OF assms(2,3)])

lemma body_chords_error:
  assumes "and_then (py_iter (dict_get data (ascii ''notes'') (VList []))) (traverse (MusicNote_kwargs co)) = Inr ns"
    "py_iter (dict_get data (ascii ''chords'') (VList [])) = Inr (pre @ x # post)"
    "\<forall>y \<in> set pre. \<not> isl ((ChordProgression_kwargs co) y)" "(ChordProgression_kwargs co) x = Inl e"
  shows "validate_music_data_body co data = Inl e"
  unfolding validate_music_data_body_def assms(1) assms(2)
  by (simp add: and_then_def traverse_first_error[OF assms(3,4)])

lemma body_rhythm_error:
  assumes "and_then (py_iter (dict_get data (ascii ''notes'') (VList []))) (traverse (MusicNote_kwargs co)) = Inr ns"
    "and_then (py_iter (dict_get data (ascii ''chords'') (VList []))) (traverse (ChordProgression_kwargs co)) = Inr cs"
    "RhythmicPattern_kwargs (dict_get data (ascii ''rhythm'') (VDict [])) = Inl e"
  shows "validate_music_data_body co data = Inl e"
  unfolding validate_music_data_body_def assms
  by (simp add: and_then_def)

lemma body_fails_if_rhythm_fails:
  assumes "isl (RhythmicPattern_kwargs (dict_get data (ascii ''rhythm'') (VDict [])))"
  shows "isl (validate_music_data_body co data)"
  using assms unfolding validate_music_data_body_def and_then_def
  by (auto split: sum.splits)

lemma body_ok:
  assumes "and_then (py_iter (dict_get data (ascii ''notes'') (VList []))) (traverse (MusicNote_kwargs co)) = Inr ns"
    "and_then (py_iter (dict_get data (ascii ''chords'') (VList []))) (traverse (ChordProgression_kwargs co)) = Inr cs"
    "RhythmicPattern_kwargs (dict_get data (ascii ''rhythm'') (VDict [])) = Inr r"
  shows "validate_music_data co data = Inr \<lparr>md_notes = ns, md_chords = cs, md_rhythm = r\<rparr>"
  unfolding validate_music_data_def validate_music_data_body_def assms
  by (simp add: and_then_def)

lemma negative_tempo_rejected:
  assumes "map_of kw (ascii ''tempo'') = Some v" "v = VInt (- 5) \<or> v = VFloat (- 5)"
  shows "isl (RhythmicPattern_new kw)"
  using assms
  by (auto simp: RhythmicPattern_new_def and_then_def get_field_def float_field_def
      validate_tempo_def Let_def split: sum.splits)

lemma empty_rhythm_rejected:
  "RhythmicPattern_new [] = Inl (ValidationError (ascii ''RhythmicPattern'')
       [(ascii ''beats'', ascii ''field required''), (ascii ''tempo'', ascii ''field required'')])"
  by (simp add: RhythmicPattern_new_def and_then_def get_field_def field_error_def)

lemma missing_rhythm_fails:
  assumes "map_of data (ascii ''rhythm'') = None"
  shows "isl (validate_music_data_body co data)"
proof -
  have "RhythmicPattern_kwargs (dict_get data (ascii ''rhythm'') (VDict [])) =
      Inl (ValidationError (ascii ''RhythmicPattern'')
       [(ascii ''beats'', ascii ''field required''), (ascii ''tempo'', ascii ''field required'')])"
    using assms by (simp add: dict_get_def RhythmicPattern_kwargs_def empty_rhythm_rejected)
  then show ?thesis using body_fails_if_rhythm_fails[of data] by simp
qed

lemma default_key:
  assumes "map_of data k = None"
  shows "dict_get ((k, d) # data) k' d' = dict_get data k' (if k' = k then d else d')"
  using assms by (auto simp: dict_get_def split: option.splits)

text \<open>
  Claim C8. Batch validation is all or nothing. The record with no notes, no chords and the
  rhythm \<open>{beats: [1.0], tempo: 100}\<close> is accepted and gives empty collections and that rhythm.
  Any record whose rhythm has tempo -5 is refused as a whole. Every failure is a ValueError
  whose message begins with "Invalid music data: ", and what follows is the text of the
  first error met: that of the first note that fails; if all notes pass, that of the first
  chord progression that fails; if those pass too, that of the rhythm.
\<close>

theorem validate_music_data_all_or_nothing:
  "validate_music_data co
      [(ascii ''notes'', VList []), (ascii ''chords'', VList []),
       (ascii ''rhythm'', VDict [(ascii ''beats'', VList [VFloat 1]), (ascii ''tempo'', VInt 100)])]
     = Inr \<lparr>md_notes = [], md_chords = [], md_rhythm = \<lparr>beats = [1], rp_tempo = 100\<rparr>\<rparr>
   \<and> (\<forall>kw v. map_of data (ascii ''rhythm'') = Some (VDict kw) \<and> map_of kw (ascii ''tempo'') = Some v
          \<and> (v = VInt (- 5) \<or> v = VFloat (- 5))
        \<longrightarrow> (\<exists>m. validate_music_data co data = Inl (ValueError (ascii ''Invalid music data: '' @ m))))
   \<and> (\<forall>e. validate_music_data co data = Inl e \<longrightarrow> (\<exists>m. e = ValueError (ascii ''Invalid music data: '' @ m)))
   \<and> (\<forall>pre x post e.
          py_iter (dict_get data (ascii ''notes'') (VList [])) = Inr (pre @ x # post)
          \<and> (\<forall>y \<in> set pre. \<not> isl ((MusicNote_kwargs co) y)) \<and> (MusicNote_kwargs co) x = Inl e
        \<longrightarrow> validate_music_data co data = Inl (ValueError (ascii ''Invalid music data: '' @ error_text e)))
   \<and> (\<forall>ns pre x post e.
          and_then (py_iter (dict_get data (ascii ''notes'') (VList []))) (traverse (MusicNote_kwargs co)) = Inr ns
          \<and> py_iter (dict_get data (ascii ''chords'') (VList [])) = Inr (pre @ x # post)
          \<and> (\<forall>y \<in> set pre. \<not> isl ((ChordProgression_kwargs co) y)) \<and> (ChordProgression_kwargs co) x = Inl e
        \<longrightarrow> validate_music_data co data = Inl (ValueError (ascii ''Invalid music data: '' @ error_text e)))
   \<and> (\<forall>ns cs e.
          and_then (py_iter (dict_get data (ascii ''notes'') (VList []))) (traverse (MusicNote_kwargs co)) = Inr ns
          \<and> and_then (py_iter (dict_get data (ascii ''chords'') (VList []))) (traverse (ChordProgression_kwargs co)) = Inr cs
          \<and> RhythmicPattern_kwargs (dict_get data (ascii ''rhythm'') (VDict [])) = Inl e
        \<longrightarrow> validate_music_data co data = Inl (ValueError (ascii ''Invalid music data: '' @ error_text e)))"
proof -
  have a: "validate_music_data co
      [(ascii ''notes'', VList []), (ascii ''chords'', VList []),
       (ascii ''rhythm'', VDict [(ascii ''beats'', VList [VFloat 1]), (ascii ''tempo'', VInt 100)])]
     = Inr \<lparr>md_notes = [], md_chords = [], md_rhythm = \<lparr>beats = [1], rp_tempo = 100\<rparr>\<rparr>"
    by (simp add: validate_music_data_def validate_music_data_body_def and_then_def dict_get_def
        py_iter_def RhythmicPattern_kwargs_def RhythmicPattern_new_def get_field_def
        float_list_field_def float_field_def validate_tempo_def)
  have b: "\<exists>m. validate_music_data co data = Inl (ValueError (ascii ''Invalid music data: '' @ m))"
    if "map_of data (ascii ''rhythm'') = Some (VDict kw)" "map_of kw (ascii ''tempo'') = Some v"
      "v = VInt (- 5) \<or> v = VFloat (- 5)" for kw v
  proof -
    have "isl (RhythmicPattern_kwargs (dict_get data (ascii ''rhythm'') (VDict [])))"
      using that(1) negative_tempo_rejected[OF that(2,3)]
      by (simp add: dict_get_def RhythmicPattern_kwargs_def)
    from body_fails_if_rhythm_fails[OF this, where co = co] obtain e where "validate_music_data_body co data = Inl e"
      by (cases "validate_music_data_body co data") auto
    from validate_music_data_wraps[OF this] show ?thesis by blast
  qed
  show ?thesis
    using a b validate_music_data_wrapped[where data = data and co = co]
      validate_music_data_wraps[where data = data and co = co, OF body_notes_error]
      validate_music_data_wraps[where data = data and co = co, OF body_chords_error]
      validate_music_data_wraps[where data = data and co = co, OF body_rhythm_error]
    by blast
qed

theorem validate_music_data_all_or_nothing_witness:
  "(\<exists>m. validate_music_data pydantic2_coerce_str
      [(ascii ''notes'', VList []), (ascii ''chords'', VList []),
       (ascii ''rhythm'', VDict [(ascii ''beats'', VList [VFloat 1]), (ascii ''tempo'', VInt (- 5))])]
     = Inl (ValueError (ascii ''Invalid music data: '' @ m)))
   \<and> validate_music_data pydantic2_coerce_str
      [(ascii ''notes'', VList [VDict [(ascii ''pitch'', VStr (ascii ''c4'')), (ascii ''duration'', VInt 1), (ascii ''timing'', VInt 0)]]),
       (ascii ''rhythm'', VDict [(ascii ''beats'', VList [VFloat 1]), (ascii ''tempo'', VInt 100)])]
     = Inl (ValueError (ascii ''Invalid music data: '' @
          error_text (ValidationError (ascii ''MusicNote'') [(ascii ''pitch'', ascii ''Invalid pitch format: c4'')])))"
proof -
  let ?d1 = "[(ascii ''notes'', VList []), (ascii ''chords'', VList []),
       (ascii ''rhythm'', VDict [(ascii ''beats'', VList [VFloat 1]), (ascii ''tempo'', VInt (- 5))])]"
  let ?x = "VDict [(ascii ''pitch'', VStr (ascii ''c4'')), (ascii ''duration'', VInt 1), (ascii ''timing'', VInt 0)]"
  let ?d2 = "[(ascii ''notes'', VList [?x]),
       (ascii ''rhythm'', VDict [(ascii ''beats'', VList [VFloat 1]), (ascii ''tempo'', VInt 100)])]"
  have 1: "map_of ?d1 (ascii ''rhythm'') = Some (VDict [(ascii ''beats'', VList [VFloat 1]), (ascii ''tempo'', VInt (- 5))])"
    by simp
  have 2: "map_of [(ascii ''beats'', VList [VFloat 1]), (ascii ''tempo'', VInt (- 5))] (ascii ''tempo'') = Some (VInt (- 5))"
    by simp
  have p1: "\<exists>m. validate_music_data pydantic2_coerce_str ?d1 = Inl (ValueError (ascii ''Invalid music data: '' @ m))"
    using validate_music_data_all_or_nothing[where co = pydantic2_coerce_str and data = "?d1"] 1 2 by blast
  have 3: "py_iter (dict_get ?d2 (ascii ''notes'') (VList [])) = Inr ([] @ ?x # [])"
    by (simp add: py_iter_def dict_get_def)
  have 4: "\<forall>y \<in> set []. \<not> isl ((MusicNote_kwargs pydantic2_coerce_str) y)" by simp
  have 5: "(MusicNote_kwargs pydantic2_coerce_str) ?x = Inl (ValidationError (ascii ''MusicNote'') [(ascii ''pitch'', ascii ''Invalid pitch format: c4'')])"
    by (simp add: MusicNote_kwargs_def MusicNote_new_def and_then_def get_field_def str_field_def
        float_field_def validate_pitch_def re_match_note_def field_error_def)
  have p2: "validate_music_data pydantic2_coerce_str ?d2 = Inl (ValueError (ascii ''Invalid music data: '' @
          error_text (ValidationError (ascii ''MusicNote'') [(ascii ''pitch'', ascii ''Invalid pitch format: c4'')])))"
    using validate_music_data_all_or_nothing[where co = pydantic2_coerce_str and data = "?d2"] 3 4 5 by blast
  show ?thesis using p1 p2 by blast
qed

text \<open>
  Claim C9, as stated, fails: a record with a valid note, no chords and no \<open>rhythm\<close> key is
  refused, because the default \<open>{}\<close> taken for the missing key lacks the two required fields
  of RhythmicPattern.
\<close>

theorem validate_music_data_missing_rhythm_counterexample:
  "validate_music_data pydantic2_coerce_str
      [(ascii ''notes'', VList [VDict [(ascii ''pitch'', VStr (ascii ''C4'')), (ascii ''duration'', VInt 1), (ascii ''timing'', VInt 0)]]),
       (ascii ''chords'', VList [])]
     = Inl (ValueError (ascii ''Invalid music data: '' @
          error_text (ValidationError (ascii ''RhythmicPattern'')
             [(ascii ''beats'', ascii ''field required''), (ascii ''tempo'', ascii ''field required'')])))"
  by (simp add: validate_music_data_def validate_music_data_body_def and_then_def dict_get_def
      py_iter_def MusicNote_kwargs_def MusicNote_new_def get_field_def str_field_def
      float_field_def validate_pitch_def re_match_note_def is_ascii_digit_def
      RhythmicPattern_kwargs_def empty_rhythm_rejected)

text \<open>
  Claim C9, amended. Only \<open>notes\<close> and \<open>chords\<close> are optional: leaving either out is the same
  as giving the empty list. The \<open>rhythm\<close> key is required: every record without it is
  refused with the wrapped error. A record with a valid rhythm and neither notes nor chords
  is accepted, with empty collections.
\<close>

theorem validate_music_data_rhythm_required:
  "(map_of data (ascii ''rhythm'') = None \<longrightarrow>
       (\<exists>m. validate_music_data co data = Inl (ValueError (ascii ''Invalid music data: '' @ m))))
   \<and> (map_of data (ascii ''notes'') = None \<longrightarrow>
       validate_music_data co data = validate_music_data co ((ascii ''notes'', VList []) # data))
   \<and> (map_of data (ascii ''chords'') = None \<longrightarrow>
       validate_music_data co data = validate_music_data co ((ascii ''chords'', VList []) # data))
   \<and> (\<forall>kw r. map_of data (ascii ''notes'') = None \<and> map_of data (ascii ''chords'') = None
         \<and> map_of data (ascii ''rhythm'') = Some (VDict kw) \<and> RhythmicPattern_new kw = Inr r
       \<longrightarrow> validate_music_data co data = Inr \<lparr>md_notes = [], md_chords = [], md_rhythm = r\<rparr>)"
proof -
  have a: "\<exists>m. validate_music_data co data = Inl (ValueError (ascii ''Invalid music data: '' @ m))"
    if "map_of data (ascii ''rhythm'') = None"
  proof -
    from missing_rhythm_fails[OF that, where co = co] obtain e where "validate_music_data_body co data = Inl e"
      by (cases "validate_music_data_body co data") auto
    from validate_music_data_wraps[OF this] show ?thesis by blast
  qed
  have b: "validate_music_data co data = validate_music_data co ((ascii ''notes'', VList []) # data)"
    if "map_of data (ascii ''notes'') = None"
    unfolding validate_music_data_def validate_music_data_body_def default_key[OF that]
    by simp
  have c: "validate_music_data co data = validate_music_data co ((ascii ''chords'', VList []) # data)"
    if "map_of data (ascii ''chords'') = None"
    unfolding validate_music_data_def validate_music_data_body_def default_key[OF that]
    by simp
  have d: "validate_music_data co data = Inr \<lparr>md_notes = [], md_chords = [], md_rhythm = r\<rparr>"
    if "map_of data (ascii ''notes'') = None" "map_of data (ascii ''chords'') = None"
      "map_of data (ascii ''rhythm'') = Some (VDict kw)" "RhythmicPattern_new kw = Inr r" for kw r
    using that
    by (simp add: validate_music_data_def validate_music_data_body_def and_then_def dict_get_def
        py_iter_def RhythmicPattern_kwargs_def)
  show ?thesis using a b c d by blast
qed

theorem validate_music_data_rhythm_required_witness:
  "(\<exists>m. validate_music_data pydantic2_coerce_str [(ascii ''notes'', VList [])] = Inl (ValueError (ascii ''Invalid music data: '' @ m)))
   \<and> validate_music_data pydantic2_coerce_str [(ascii ''rhythm'', VDict [(ascii ''beats'', VList [VFloat 1]), (ascii ''tempo'', VInt 100)])]
       = Inr \<lparr>md_notes = [], md_chords = [], md_rhythm = \<lparr>beats = [1], rp_tempo = 100\<rparr>\<rparr>"
proof -
  let ?d1 = "[(ascii ''notes'', VList [])]"
  let ?kw = "[(ascii ''beats'', VList [VFloat 1]), (ascii ''tempo'', VInt 100)]"
  let ?d2 = "[(ascii ''rhythm'', VDict ?kw)]"
  have 1: "map_of ?d1 (ascii ''rhythm'') = None" by simp
  have 2: "map_of ?d2 (ascii ''notes'') = None" "map_of ?d2 (ascii ''chords'') = None"
    "map_of ?d2 (ascii ''rhythm'') = Some (VDict ?kw)" by simp_all
  have 3: "RhythmicPattern_new ?kw = Inr \<lparr>beats = [1], rp_tempo = 100\<rparr>"
    by (simp add: RhythmicPattern_new_def and_then_def get_field_def
        float_list_field_def float_field_def validate_tempo_def)
  show ?thesis
    using validate_music_data_rhythm_required[where co = pydantic2_coerce_str and data = "?d1"] validate_music_data_rhythm_required[where co = pydantic2_coerce_str and data = "?d2"]
      1 2 3 by blast
qed

section \<open>Formatting notes\<close>

lemma dec_of_snoc: "dec_of (vs @ [v]) = 10 * dec_of vs + v"
  by (simp add: dec_of_def)

lemma dec_of_zeros:
  assumes "\<forall>v \<in> set vs. v = 0"
  shows "dec_of vs = 0"
  using assms
proof (induction vs rule: rev_induct)
  case Nil
  then show ?case by (simp add: dec_of_def)
next
  case (snoc v vs)
  then show ?case by (simp add: dec_of_snoc)
qed

lemma str_nat_small: "n < 10 \<Longrightarrow> str_nat n = [digit_char n]"
  by (subst str_nat.simps) simp

lemma str_nat_step:
  assumes "0 < n" "v < 10"
  shows "str_nat (10 * n + v) = str_nat n @ [digit_char v]"
proof -
  have "\<not> 10 * n + v < 10" using assms by simp
  moreover have "(10 * n + v) div 10 = n" "(10 * n + v) mod 10 = v" using assms by simp_all
  ultimately show ?thesis by (subst str_nat.simps) simp
qed

lemma dropWhile_zero_empty:
  "dropWhile (\<lambda>d. d = 48) ds = [] \<longleftrightarrow> (\<forall>d \<in> set ds. d = (48::nat))"
  by (induction ds) auto

lemma digit_char_zero: "digit_char v = 48 \<longleftrightarrow> v = 0"
  by (simp add: digit_char_def)

lemma str_nat_dec_of:
  assumes "vs \<noteq> []" "\<forall>v \<in> set vs. v < 10"
  shows "str_nat (dec_of vs) = strip_zeros (map digit_char vs)"
  using assms
proof (induction vs rule: rev_induct)
  case Nil
  then show ?case by simp
next
  case (snoc v vs)
  have v: "v < 10" using snoc.prems by simp
  show ?case
  proof (cases "\<forall>c \<in> set vs. c = 0")
    case True
    then have z: "dec_of vs = 0" by (rule dec_of_zeros)
    have "\<And>c. c \<in> set (map digit_char vs) \<Longrightarrow> c = 48"
      using True by (auto simp: digit_char_zero)
    then have dw: "dropWhile (\<lambda>d. d = 48) (map digit_char vs @ [digit_char v])
        = dropWhile (\<lambda>d. d = 48) [digit_char v]"
      by (rule dropWhile_append2)
    have "str_nat (dec_of (vs @ [v])) = [digit_char v]"
      using v by (simp add: dec_of_snoc z str_nat_small)
    moreover have "strip_zeros (map digit_char (vs @ [v])) = [digit_char v]"
      unfolding strip_zeros_def map_append list.map dw
      by (simp add: Let_def digit_char_zero)
    ultimately show ?thesis by simp
  next
    case False
    then have ne: "vs \<noteq> []" by auto
    have dg: "\<forall>c \<in> set vs. c < 10" using snoc.prems by simp
    from snoc.IH[OF ne dg] have ih: "str_nat (dec_of vs) = strip_zeros (map digit_char vs)" .
    from False obtain c where c: "c \<in> set vs" "c \<noteq> 0" by blast
    then have c': "digit_char c \<in> set (map digit_char vs)" "\<not> digit_char c = 48"
      by (simp_all add: digit_char_zero)
    then have r: "dropWhile (\<lambda>d. d = 48) (map digit_char vs) \<noteq> []"
      unfolding dropWhile_zero_empty by blast
    have sz: "strip_zeros (map digit_char vs) = dropWhile (\<lambda>d. d = 48) (map digit_char vs)"
      unfolding strip_zeros_def Let_def using r by (simp only: if_False)
    have pos: "0 < dec_of vs"
    proof (rule ccontr)
      assume "\<not> 0 < dec_of vs"
      then have "dec_of vs = 0" by simp
      then have "strip_zeros (map digit_char vs) = [48]"
        using ih by (simp add: str_nat_small digit_char_def)
      with sz have "dropWhile (\<lambda>d. d = 48) (map digit_char vs) = [48]" by simp
      moreover have "hd (dropWhile (\<lambda>d. d = 48) (map digit_char vs)) \<noteq> 48"
        using r hd_dropWhile[of "\<lambda>d. d = 48" "map digit_char vs"] by blast
      ultimately show False by simp
    qed
    have dw: "dropWhile (\<lambda>d. d = 48) (map digit_char vs @ [digit_char v])
        = dropWhile (\<lambda>d. d = 48) (map digit_char vs) @ [digit_char v]"
      using c' by (rule dropWhile_append1)
    have "strip_zeros (map digit_char (vs @ [v]))
        = dropWhile (\<lambda>d. d = 48) (map digit_char vs) @ [digit_char v]"
      unfolding strip_zeros_def Let_def map_append list.map dw by simp
    then have "strip_zeros (map digit_char (vs @ [v])) = strip_zeros (map digit_char vs) @ [digit_char v]"
      unfolding sz .
    moreover have "str_nat (dec_of (vs @ [v])) = str_nat (dec_of vs) @ [digit_char v]"
      unfolding dec_of_snoc using str_nat_step[OF pos v] by simp
    ultimately show ?thesis using ih by simp
  qed
qed

lemma py_str_int_dec_val:
  assumes "ds \<noteq> []" "\<forall>d \<in> set ds. is_digit d"
  shows "py_str_int (int (dec_val ds)) = strip_zeros (map ascii_digit ds)"
proof -
  have 1: "map digit_val ds \<noteq> []" using assms(1) by simp
  have 2: "\<forall>v \<in> set (map digit_val ds). v < 10" using assms(2) digit_val_lt by auto
  have 3: "map ascii_digit ds = map digit_char (map digit_val ds)"
    by (simp add: ascii_digit_def)
  show ?thesis
    unfolding 3 str_nat_dec_of[OF 1 2, symmetric] by (simp add: py_str_int_def dec_val_def)
qed

lemma ascii_digit_ascii:
  assumes "\<forall>d \<in> set ds. is_ascii_digit d"
  shows "map ascii_digit ds = ds"
proof -
  have "ascii_digit d = d" if "is_ascii_digit d" for d
    using that by (simp add: ascii_digit_def is_ascii_digit_def digit_val_ascii digit_char_def)
  then show ?thesis using assms by (simp add: map_idI)
qed

lemma strip_zeros_canonical:
  assumes "ds \<noteq> []" "ds = [48] \<or> hd ds \<noteq> 48"
  shows "strip_zeros ds = ds"
  using assms by (cases ds) (auto simp: strip_zeros_def Let_def)

lemma format_parsed_note:
  assumes "parse_note t = Inr n"
  shows "format_note n = normalize_token t"
proof -
  from assms obtain g1 g2 g3 where
    m: "re_match_note (ascii ''ABCDEFGabcdefg'') is_digit t = Some (g1, g2, g3)"
    by (cases "re_match_note (ascii ''ABCDEFGabcdefg'') is_digit t") (auto simp: parse_note_def)
  from re_match_note_sound[OF m] have g: "g2 \<in> {[], ascii ''#'', ascii ''b''}" "g3 \<noteq> []"
    "\<forall>d \<in> set g3. is_digit d"
    by blast+
  from assms m obtain oct where o: "py_int g3 = Inr oct"
    and n: "n = \<lparr>pitch = py_upper g1, accidental = Some g2, octave = oct\<rparr>"
    by (auto simp: parse_note_def Let_def split: sum.splits if_splits)
  from o have oct: "oct = int (dec_val g3)"
    by (auto simp: py_int_def dec_val_def dec_of_def foldl_map split: if_splits)
  have "format_note n = py_upper g1 @ g2 @ py_str_int (int (dec_val g3))"
    unfolding n oct format_note_def using g(1) by auto
  then show ?thesis
    unfolding normalize_token_def m py_str_int_dec_val[OF g(2,3)] by simp
qed

lemma map_format_parsed:
  assumes "traverse parse_note ts = Inr ns"
  shows "map format_note ns = map normalize_token ts"
  using assms
proof (induction ts arbitrary: ns)
  case Nil
  then show ?case by simp
next
  case (Cons t ts)
  then show ?case by (auto split: sum.splits simp: format_parsed_note)
qed

lemma normalize_token_valid:
  assumes "l \<in> set (ascii ''ABCDEFGabcdefg'')" "a \<in> {[], ascii ''#'', ascii ''b''}" "ds \<noteq> []"
    "\<forall>d \<in> set ds. is_digit d" "e = [] \<or> e = [newline]"
  shows "normalize_token (l # a @ ds @ e) = upper_char l # a @ strip_zeros (map ascii_digit ds)"
  unfolding normalize_token_def note_token_utils[OF assms] by (simp add: py_upper_def)

lemma format_single_valid:
  assumes "l \<in> set (ascii ''ABCDEFGabcdefg'')" "a \<in> {[], ascii ''#'', ascii ''b''}" "ds \<noteq> []"
    "\<forall>d \<in> set ds. is_digit d" "e = [] \<or> e = [newline]" "length ds \<le> 4300"
  shows "\<exists>n. parse_note (l # a @ ds @ e) = Inr n
               \<and> format_notes [n] = upper_char l # a @ strip_zeros (map ascii_digit ds)"
proof -
  let ?n = "\<lparr>pitch = py_upper [l], accidental = Some a, octave = int (dec_val ds)\<rparr>"
  have n: "parse_note (l # a @ ds @ e) = Inr ?n" using parse_note_token[OF assms] .
  have "format_note ?n = normalize_token (l # a @ ds @ e)" using format_parsed_note[OF n] .
  then have "format_notes [?n] = upper_char l # a @ strip_zeros (map ascii_digit ds)"
    unfolding normalize_token_valid[OF assms(1-5)] format_notes_def by simp
  with n show ?thesis by (rule_tac x = ?n in exI) (rule conjI)
qed

lemma format_single_canonical:
  assumes "l \<in> set (ascii ''ABCDEFGabcdefg'')" "a \<in> {[], ascii ''#'', ascii ''b''}" "ds \<noteq> []"
    "\<forall>d \<in> set ds. is_ascii_digit d" "ds = ascii ''0'' \<or> hd ds \<noteq> 48" "length ds \<le> 4300"
  shows "\<exists>n. parse_note (l # a @ ds) = Inr n \<and> format_notes [n] = upper_char l # a @ ds"
proof -
  have e: "([]::pystr) = [] \<or> ([]::pystr) = [newline]" by simp
  have d: "\<forall>d \<in> set ds. is_digit d" using assms(4) is_ascii_digit_is_digit by blast
  have c: "ds = [48] \<or> hd ds \<noteq> 48" using assms(5) by simp
  from format_single_valid[OF assms(1-3) d e assms(6)]
  show ?thesis unfolding ascii_digit_ascii[OF assms(4)] strip_zeros_canonical[OF assms(3) c] by simp
qed

lemma format_notes_traverse:
  assumes "traverse parse_note ts = Inr ns"
  shows "format_notes ns = join_space (map normalize_token ts)"
  unfolding format_notes_def map_format_parsed[OF assms] ..

lemma str_nat_4: "str_nat 4 = ascii ''4''"
  by (simp add: str_nat_small digit_char_def)

lemma parse_note_examples:
  "parse_note (ascii ''c#4'') = Inr \<lparr>pitch = ascii ''C'', accidental = Some (ascii ''#''), octave = 4\<rparr>"
  "parse_note (ascii ''Eb10'') = Inr \<lparr>pitch = ascii ''E'', accidental = Some (ascii ''b''), octave = 10\<rparr>"
  "parse_note (ascii ''C04'') = Inr \<lparr>pitch = ascii ''C'', accidental = Some [], octave = 4\<rparr>"
proof -
  have e: "([]::pystr) = [] \<or> ([]::pystr) = [newline]" by simp
  have v: "dec_val [52] = 4" "dec_val [49, 48] = 10" "dec_val [48, 52] = 4"
    by (simp_all add: dec_val_def dec_of_def digit_val_ascii)
  have u: "py_upper [99] = [67]" "py_upper [69] = [69]" "py_upper [67] = [67]"
    by (simp_all add: py_upper_def upper_char_def)
  have "parse_note (99 # ascii ''#'' @ [52] @ []) =
      Inr \<lparr>pitch = py_upper [99], accidental = Some (ascii ''#''), octave = int (dec_val [52])\<rparr>"
    by (rule parse_note_token) (simp_all add: is_digit_ascii)
  then show "parse_note (ascii ''c#4'') =
      Inr \<lparr>pitch = ascii ''C'', accidental = Some (ascii ''#''), octave = 4\<rparr>"
    by (simp add: u v)
  have "parse_note (69 # ascii ''b'' @ [49, 48] @ []) =
      Inr \<lparr>pitch = py_upper [69], accidental = Some (ascii ''b''), octave = int (dec_val [49, 48])\<rparr>"
    by (rule parse_note_token) (simp_all add: is_digit_ascii)
  then show "parse_note (ascii ''Eb10'') =
      Inr \<lparr>pitch = ascii ''E'', accidental = Some (ascii ''b''), octave = 10\<rparr>"
    by (simp add: u v)
  have "parse_note (67 # [] @ [48, 52] @ []) =
      Inr \<lparr>pitch = py_upper [67], accidental = Some [], octave = int (dec_val [48, 52])\<rparr>"
    by (rule parse_note_token) (simp_all add: is_digit_ascii)
  then show "parse_note (ascii ''C04'') =
      Inr \<lparr>pitch = ascii ''C'', accidental = Some [], octave = 4\<rparr>"
    by (simp add: u v)
qed

lemma ascii_digit_examples:
  "ascii_digit 52 = 52" "ascii_digit 49 = 49" "ascii_digit 48 = 48"
  "ascii_digit 1632 = 48" "ascii_digit 1636 = 52"
  by (simp_all add: ascii_digit_def digit_val_def digit_zero_def digit_zeros_def digit_char_def)

lemma is_digit_examples: "is_digit 1632" "is_digit 1636"
  by (simp_all add: is_digit_def digit_zero_def digit_zeros_def)

lemma normalize_token_examples:
  "normalize_token (ascii ''c#4'') = ascii ''C#4''"
  "normalize_token (ascii ''Eb10'') = ascii ''Eb10''"
proof -
  have "normalize_token (99 # ascii ''#'' @ [52] @ [])
      = upper_char 99 # ascii ''#'' @ strip_zeros (map ascii_digit [52])"
    by (rule normalize_token_valid) (simp_all add: is_digit_ascii)
  then show "normalize_token (ascii ''c#4'') = ascii ''C#4''"
    by (simp add: upper_char_def ascii_digit_examples strip_zeros_def)
  have "normalize_token (69 # ascii ''b'' @ [49, 48] @ [])
      = upper_char 69 # ascii ''b'' @ strip_zeros (map ascii_digit [49, 48])"
    by (rule normalize_token_valid) (simp_all add: is_digit_ascii)
  then show "normalize_token (ascii ''Eb10'') = ascii ''Eb10''"
    by (simp add: upper_char_def ascii_digit_examples strip_zeros_def)
qed

text \<open>
  Claim C10, as stated, fails: the octave is kept as a number, so formatting the note
  parsed from \<^verbatim>\<open>C04\<close> gives \<^verbatim>\<open>C4\<close>, not the token with only its letter in upper case.
\<close>

theorem format_notes_leading_zero_counterexample:
  "parse_note (ascii ''C04'') = Inr \<lparr>pitch = ascii ''C'', accidental = Some [], octave = 4\<rparr>
   \<and> format_notes [\<lparr>pitch = ascii ''C'', accidental = Some [], octave = 4\<rparr>] = ascii ''C4''
   \<and> ascii ''C4'' \<noteq> ascii ''C04''"
proof -
  have f: "format_notes [\<lparr>pitch = ascii ''C'', accidental = Some [], octave = 4\<rparr>] = ascii ''C4''"
    using str_nat_4 by (simp add: format_notes_def format_note_def py_str_int_def)
  show ?thesis using parse_note_examples(3) f by simp
qed

text \<open>
  Claim C10, amended. Formatting the notes parsed from a list of tokens gives the
  normalized tokens, in order, separated by single spaces. The normalized form of a valid
  token is its letter in upper case, its accidental, and the octave as an ASCII decimal
  numeral: every digit of the digit group replaced by the ASCII digit of the same value,
  and superfluous leading zeros removed (a final newline is dropped); this is also what
  formatting the single note parsed from a valid token of at most 4300 digits gives. It is
  the token itself with the letter in upper case whenever the digit group consists of
  ASCII digits, has no superfluous leading zero, and no newline follows.
\<close>

theorem format_notes_normalizes_tokens:
  "(\<forall>ns. traverse parse_note ts = Inr ns \<longrightarrow> format_notes ns = join_space (map normalize_token ts))
   \<and> (\<forall>l a ds e. l \<in> set (ascii ''ABCDEFGabcdefg'') \<and> a \<in> {[], ascii ''#'', ascii ''b''} \<and> ds \<noteq> [] \<and>
          (\<forall>d \<in> set ds. is_digit d) \<and> (e = [] \<or> e = [newline])
        \<longrightarrow> normalize_token (l # a @ ds @ e) = upper_char l # a @ strip_zeros (map ascii_digit ds)
            \<and> (length ds \<le> 4300 \<longrightarrow>
                 (\<exists>n. parse_note (l # a @ ds @ e) = Inr n
                    \<and> format_notes [n] = upper_char l # a @ strip_zeros (map ascii_digit ds))))
   \<and> (\<forall>l a ds. l \<in> set (ascii ''ABCDEFGabcdefg'') \<and> a \<in> {[], ascii ''#'', ascii ''b''} \<and> ds \<noteq> [] \<and>
          (\<forall>d \<in> set ds. is_ascii_digit d) \<and> (ds = ascii ''0'' \<or> hd ds \<noteq> 48) \<and> length ds \<le> 4300
        \<longrightarrow> (\<exists>n. parse_note (l # a @ ds) = Inr n \<and> format_notes [n] = upper_char l # a @ ds))"
proof (intro conjI allI impI)
  fix ns assume "traverse parse_note ts = Inr ns"
  then show "format_notes ns = join_space (map normalize_token ts)" by (rule format_notes_traverse)
next
  fix l a ds e
  assume h: "l \<in> set (ascii ''ABCDEFGabcdefg'') \<and> a \<in> {[], ascii ''#'', ascii ''b''} \<and> ds \<noteq> [] \<and>
          (\<forall>d \<in> set ds. is_digit d) \<and> (e = [] \<or> e = [newline])"
  then have h': "l \<in> set (ascii ''ABCDEFGabcdefg'')" "a \<in> {[], ascii ''#'', ascii ''b''}" "ds \<noteq> []"
    "\<forall>d \<in> set ds. is_digit d" "e = [] \<or> e = [newline]" by blast+
  show "normalize_token (l # a @ ds @ e) = upper_char l # a @ strip_zeros (map ascii_digit ds)"
    using normalize_token_valid[OF h'] .
  assume "length ds \<le> 4300"
  then show "\<exists>n. parse_note (l # a @ ds @ e) = Inr n
               \<and> format_notes [n] = upper_char l # a @ strip_zeros (map ascii_digit ds)"
    using format_single_valid[OF h'] by blast
next
  fix l a ds
  assume h: "l \<in> set (ascii ''ABCDEFGabcdefg'') \<and> a \<in> {[], ascii ''#'', ascii ''b''} \<and> ds \<noteq> [] \<and>
          (\<forall>d \<in> set ds. is_ascii_digit d) \<and> (ds = ascii ''0'' \<or> hd ds \<noteq> 48) \<and> length ds \<le> 4300"
  then have h': "l \<in> set (ascii ''ABCDEFGabcdefg'')" "a \<in> {[], ascii ''#'', ascii ''b''}" "ds \<noteq> []"
    "\<forall>d \<in> set ds. is_ascii_digit d" "ds = ascii ''0'' \<or> hd ds \<noteq> 48" "length ds \<le> 4300" by blast+
  show "\<exists>n. parse_note (l # a @ ds) = Inr n \<and> format_notes [n] = upper_char l # a @ ds"
    using format_single_canonical[OF h'] .
qed

theorem format_notes_normalizes_tokens_witness:
  "format_notes [\<lparr>pitch = ascii ''C'', accidental = Some (ascii ''#''), octave = 4\<rparr>,
                 \<lparr>pitch = ascii ''E'', accidental = Some (ascii ''b''), octave = 10\<rparr>] = ascii ''C#4 Eb10''
   \<and> (\<exists>n. parse_note (ascii ''c04'') = Inr n \<and> format_notes [n] = ascii ''C4'')
   \<and> (\<exists>n. parse_note [99, 1632, 1636] = Inr n \<and> format_notes [n] = ascii ''C4'')
   \<and> (\<exists>n. parse_note (ascii ''g#12'') = Inr n \<and> format_notes [n] = ascii ''G#12'')"
proof -
  let ?ts = "[ascii ''c#4'', ascii ''Eb10'']"
  let ?ns = "[\<lparr>pitch = ascii ''C'', accidental = Some (ascii ''#''), octave = 4\<rparr>,
           \<lparr>pitch = ascii ''E'', accidental = Some (ascii ''b''), octave = 10\<rparr>]"
  note inst = format_notes_normalizes_tokens[of ?ts]
  have t: "traverse parse_note ?ts = Inr ?ns"
    using parse_note_examples(1,2) by simp
  have j: "join_space (map normalize_token ?ts) = ascii ''C#4 Eb10''"
    using normalize_token_examples by simp
  from inst have "\<forall>ns. traverse parse_note ?ts = Inr ns \<longrightarrow>
      format_notes ns = join_space (map normalize_token ?ts)"
    by (rule conjunct1)
  from this[rule_format, OF t] have a: "format_notes ?ns = ascii ''C#4 Eb10''" unfolding j .
  have e: "([]::pystr) = [] \<or> ([]::pystr) = [newline]" by simp
  have h2: "99 \<in> set (ascii ''ABCDEFGabcdefg'') \<and> [] \<in> {[], ascii ''#'', ascii ''b''} \<and> [48, 52] \<noteq> [] \<and>
          (\<forall>d \<in> set [48, 52]. is_digit d) \<and> (([]::pystr) = [] \<or> ([]::pystr) = [newline])"
    by (simp add: is_digit_ascii)
  have l2: "length [48::nat, 52] \<le> 4300" by simp
  have u: "upper_char 99 = 67" "strip_zeros (map ascii_digit [48, 52]) = [52]"
    "strip_zeros (map ascii_digit [1632, 1636]) = [52]" "upper_char 103 = 71"
    by (simp_all add: upper_char_def strip_zeros_def ascii_digit_examples)
  from inst[THEN conjunct2, THEN conjunct1, rule_format, OF h2, THEN conjunct2, rule_format, OF l2]
  have b: "\<exists>n. parse_note (ascii ''c04'') = Inr n \<and> format_notes [n] = ascii ''C4''"
    unfolding u by simp
  have h2': "99 \<in> set (ascii ''ABCDEFGabcdefg'') \<and> [] \<in> {[], ascii ''#'', ascii ''b''} \<and> [1632, 1636] \<noteq> [] \<and>
          (\<forall>d \<in> set [1632, 1636]. is_digit d) \<and> (([]::pystr) = [] \<or> ([]::pystr) = [newline])"
    by (simp add: is_digit_examples)
  have l2': "length [1632::nat, 1636] \<le> 4300" by simp
  from inst[THEN conjunct2, THEN conjunct1, rule_format, OF h2', THEN conjunct2, rule_format, OF l2']
  have b': "\<exists>n. parse_note [99, 1632, 1636] = Inr n \<and> format_notes [n] = ascii ''C4''"
    unfolding u by simp
  have h3: "103 \<in> set (ascii ''ABCDEFGabcdefg'') \<and> ascii ''#'' \<in> {[], ascii ''#'', ascii ''b''} \<and> [49, 50] \<noteq> [] \<and>
          (\<forall>d \<in> set [49, 50]. is_ascii_digit d) \<and> ([49, 50] = ascii ''0'' \<or> hd [49, 50] \<noteq> (48::nat))
          \<and> length [49::nat, 50] \<le> 4300"
    by (simp add: is_ascii_digit_def)
  from inst[THEN conjunct2, THEN conjunct2, rule_format, OF h3]
  have c: "\<exists>n. parse_note (ascii ''g#12'') = Inr n \<and> format_notes [n] = ascii ''G#12''"
    unfolding u by simp
  show ?thesis using a b b' c by (intro conjI)
qed

end
